theory Spec2Isabelle
  imports Main "HOL-Library.AList"
begin

section \<open>JavaScript values\<close>

text \<open>
  The values that travel through \<^verbatim>\<open>server.js\<close>: request bodies parsed by
  \<^verbatim>\<open>express.json()\<close>, the fields of rows, session fields and the values handed to
  \<^verbatim>\<open>res.json\<close>. Numbers are restricted to integers (ids, counts and status codes are
  the only numbers the handlers look at). An object is an association list; a property
  read takes the first binding of the key.
\<close>

datatype json =
    Undefined
  | Null
  | JBool bool
  | JNum int
  | JStr string
  | JArr "json list"
  | JObj "(string \<times> json) list"

type_synonym obj = "(string \<times> json) list"

text \<open>JavaScript's truthiness, as used by \<^verbatim>\<open>if (x)\<close>, \<^verbatim>\<open>!x\<close> and \<^verbatim>\<open>a && b\<close>.\<close>

fun truthy :: "json \<Rightarrow> bool" where
  "truthy Undefined = False"
| "truthy Null = False"
| "truthy (JBool b) = b"
| "truthy (JNum n) = (n \<noteq> 0)"
| "truthy (JStr s) = (s \<noteq> [])"
| "truthy (JArr xs) = True"
| "truthy (JObj kvs) = True"

text \<open>\<^verbatim>\<open>o.k\<close> on an object: \<^verbatim>\<open>undefined\<close> when the property is absent.\<close>

definition field :: "obj \<Rightarrow> string \<Rightarrow> json" where
  "field kvs k = (case map_of kvs k of Some v \<Rightarrow> v | None \<Rightarrow> Undefined)"

text \<open>
  A thrown value. JavaScript can throw any value; the \<^verbatim>\<open>TypeError\<close> of a property
  access on \<^verbatim>\<open>undefined\<close> or \<^verbatim>\<open>null\<close> is one of them.
\<close>

datatype exn = Thrown json

definition TypeError :: exn where
  "TypeError = Thrown (JStr ''TypeError'')"

definition nullish :: "json \<Rightarrow> bool" where
  "nullish v = (v = Undefined \<or> v = Null)"

text \<open>\<^verbatim>\<open>v.k\<close> for the property names the handlers read, on a value that is not nullish.\<close>

definition get :: "json \<Rightarrow> string \<Rightarrow> json" where
  "get v k = (case v of JObj kvs \<Rightarrow> field kvs k | _ \<Rightarrow> Undefined)"

text \<open>\<^verbatim>\<open>v.k\<close> in general: a property access on \<^verbatim>\<open>undefined\<close> or \<^verbatim>\<open>null\<close> throws.\<close>

definition member :: "json \<Rightarrow> string \<Rightarrow> exn + json" where
  "member v k = (if nullish v then Inl TypeError else Inr (get v k))"

text \<open>
  \<^verbatim>\<open>const { k1, ..., kn } = v\<close>: throws on \<^verbatim>\<open>undefined\<close> and \<^verbatim>\<open>null\<close>, otherwise binds
  every name, to \<^verbatim>\<open>undefined\<close> where \<^verbatim>\<open>v\<close> has no such property. The bindings are kept
  as an object, which is also the shorthand literal \<^verbatim>\<open>{ k1, ..., kn }\<close>.
\<close>

definition destructure :: "json \<Rightarrow> string list \<Rightarrow> exn + obj" where
  "destructure v ks = (if nullish v then Inl TypeError else Inr (map (\<lambda>k. (k, get v k)) ks))"

section \<open>Requests, responses and the collaborators\<close>

text \<open>\<^verbatim>\<open>req.session\<close> with the three properties the server writes and reads.\<close>

record session =
  userId :: json
  username :: json
  userEmail :: json

text \<open>
  The parts of \<^verbatim>\<open>req\<close> the server uses: \<^verbatim>\<open>req.params.id\<close> (a string in Express),
  \<^verbatim>\<open>req.body\<close>, \<^verbatim>\<open>req.session\<close> (absent when the session middleware attached none)
  and \<^verbatim>\<open>req.user\<close> (\<^verbatim>\<open>undefined\<close> until \<^verbatim>\<open>requireAuth\<close> sets it).
\<close>

record request =
  params_id :: string
  body :: json
  session :: "session option"
  user :: json

text \<open>
  What the client receives: \<^verbatim>\<open>res.status(n).json(v)\<close> (\<^verbatim>\<open>res.json(v)\<close> alone answers
  200), or, for an exception thrown outside every \<^verbatim>\<open>try\<close>, the framework's own error
  response.
\<close>

datatype response = Response nat json | Unhandled exn

fun status :: "response \<Rightarrow> nat" where
  "status (Response n v) = n"
| "status (Unhandled e) = 500"

text \<open>
  The outcome of serving one request: the response, the state of the persistence
  collaborator afterwards, \<^verbatim>\<open>req.session\<close> afterwards, and what was written with
  \<^verbatim>\<open>console.error\<close> (the message and the error logged with it).
\<close>

record 'db result =
  res :: response
  store :: 'db
  session_after :: "session option"
  console :: "(string \<times> exn) list"

text \<open>
  The persistence collaborator is required from \<^verbatim>\<open>./database/setup\<close> and is not part of
  \<^verbatim>\<open>server.js\<close>. The handlers are written against the interface they call: each call
  takes the state of the store, resolves to a value or throws, and leaves a state.
  \<^verbatim>\<open>findByPk\<close> and \<^verbatim>\<open>findOne\<close> resolve to a row or to \<^verbatim>\<open>null\<close> (\<open>None\<close>);
  \<^verbatim>\<open>update\<close> resolves to \<^verbatim>\<open>[affectedCount]\<close> and \<^verbatim>\<open>destroy\<close> to the number of rows
  deleted.
\<close>

type_synonym ('db, 'a) call = "'db \<Rightarrow> (exn + 'a) \<times> 'db"

record 'db model =
  findAll :: "('db, obj list) call"
  findByPk :: "string \<Rightarrow> ('db, obj option) call"
  findOne :: "json \<Rightarrow> ('db, obj option) call"
  create :: "obj \<Rightarrow> ('db, obj) call"
  update :: "obj \<Rightarrow> string \<Rightarrow> ('db, nat) call"
  destroy :: "string \<Rightarrow> ('db, nat) call"

text \<open>
  Everything \<^verbatim>\<open>server.js\<close> requires: the three models, \<^verbatim>\<open>bcrypt.hash\<close> and
  \<^verbatim>\<open>bcrypt.compare\<close> of bcryptjs, and \<^verbatim>\<open>req.session.destroy\<close> of express-session,
  which hands its callback an error or nothing.
\<close>

record 'db env =
  Project :: "'db model"
  Task :: "'db model"
  User :: "'db model"
  bcrypt_hash :: "json \<Rightarrow> nat \<Rightarrow> exn + json"
  bcrypt_compare :: "json \<Rightarrow> json \<Rightarrow> exn + bool"
  session_destroy :: "session \<Rightarrow> exn option"

section \<open>The server\<close>

text \<open>\<^verbatim>\<open>res.status(code).json(v)\<close> as the last action of a handler.\<close>

definition json_reply :: "nat \<Rightarrow> json \<Rightarrow> request \<Rightarrow> 'db \<Rightarrow> 'db result" where
  "json_reply code v req d =
     \<lparr>res = Response code v, store = d, session_after = session req, console = []\<rparr>"

text \<open>
  A \<^verbatim>\<open>catch (error)\<close> block of the server:
  \<^verbatim>\<open>console.error(label, error); res.status(500).json({ error: msg })\<close>.
\<close>

definition caught :: "string \<Rightarrow> string \<Rightarrow> exn \<Rightarrow> request \<Rightarrow> 'db \<Rightarrow> 'db result" where
  "caught label msg error req d =
     \<lparr>res = Response 500 (JObj [(''error'', JStr msg)]), store = d,
      session_after = session req, console = [(label, error)]\<rparr>"

text \<open>
  The authentication middleware. \<open>next\<close> is the rest of the route's chain, called with
  the request after \<^verbatim>\<open>req.user\<close> has been set.
\<close>

definition requireAuth ::
  "(request \<Rightarrow> 'db \<Rightarrow> 'db result) \<Rightarrow> request \<Rightarrow> 'db \<Rightarrow> 'db result" where
  "requireAuth next req d =
     (case session req of
        Some s \<Rightarrow>
          if truthy (userId s)
          then next (req\<lparr>user := JObj [(''id'', userId s), (''username'', username s),
                                        (''email'', userEmail s)]\<rparr>) d
          else json_reply 401 (JObj [(''error'', JStr ''Authentication required. Please log in.'')]) req d
      | None \<Rightarrow>
          json_reply 401 (JObj [(''error'', JStr ''Authentication required. Please log in.'')]) req d)"

subsection \<open>Project routes\<close>

definition get_projects :: "'db env \<Rightarrow> request \<Rightarrow> 'db \<Rightarrow> 'db result" where
  "get_projects E req d =
     (case findAll (Project E) d of
        (Inl error, d1) \<Rightarrow> caught ''Error fetching projects:'' ''Failed to fetch projects'' error req d1
      | (Inr projects, d1) \<Rightarrow> json_reply 200 (JArr (map JObj projects)) req d1)"

definition get_project :: "'db env \<Rightarrow> request \<Rightarrow> 'db \<Rightarrow> 'db result" where
  "get_project E req d =
     (case findByPk (Project E) (params_id req) d of
        (Inl error, d1) \<Rightarrow> caught ''Error fetching project:'' ''Failed to fetch project'' error req d1
      | (Inr None, d1) \<Rightarrow> json_reply 404 (JObj [(''error'', JStr ''Project not found'')]) req d1
      | (Inr (Some project), d1) \<Rightarrow> json_reply 200 (JObj project) req d1)"

definition post_projects :: "'db env \<Rightarrow> request \<Rightarrow> 'db \<Rightarrow> 'db result" where
  "post_projects E req d =
     (case destructure (body req) [''name'', ''description'', ''status'', ''dueDate''] of
        Inl error \<Rightarrow> caught ''Error creating project:'' ''Failed to create project'' error req d
      | Inr vars \<Rightarrow>
         (case member (user req) ''id'' of
            Inl error \<Rightarrow> caught ''Error creating project:'' ''Failed to create project'' error req d
          | Inr uid \<Rightarrow>
             (case create (Project E) (vars @ [(''userId'', uid)]) d of
                (Inl error, d1) \<Rightarrow>
                  caught ''Error creating project:'' ''Failed to create project'' error req d1
              | (Inr newProject, d1) \<Rightarrow> json_reply 201 (JObj newProject) req d1)))"

definition put_project :: "'db env \<Rightarrow> request \<Rightarrow> 'db \<Rightarrow> 'db result" where
  "put_project E req d =
     (case destructure (body req) [''name'', ''description'', ''status'', ''dueDate''] of
        Inl error \<Rightarrow> caught ''Error updating project:'' ''Failed to update project'' error req d
      | Inr vars \<Rightarrow>
         (case update (Project E) vars (params_id req) d of
            (Inl error, d1) \<Rightarrow>
              caught ''Error updating project:'' ''Failed to update project'' error req d1
          | (Inr updatedRowsCount, d1) \<Rightarrow>
              if updatedRowsCount = 0
              then json_reply 404 (JObj [(''error'', JStr ''Project not found'')]) req d1
              else
                (case findByPk (Project E) (params_id req) d1 of
                   (Inl error, d2) \<Rightarrow>
                     caught ''Error updating project:'' ''Failed to update project'' error req d2
                 | (Inr updatedProject, d2) \<Rightarrow>
                     json_reply 200 (case updatedProject of Some p \<Rightarrow> JObj p | None \<Rightarrow> Null) req d2)))"

definition delete_project :: "'db env \<Rightarrow> request \<Rightarrow> 'db \<Rightarrow> 'db result" where
  "delete_project E req d =
     (case destroy (Project E) (params_id req) d of
        (Inl error, d1) \<Rightarrow> caught ''Error deleting project:'' ''Failed to delete project'' error req d1
      | (Inr deletedRowsCount, d1) \<Rightarrow>
          if deletedRowsCount = 0
          then json_reply 404 (JObj [(''error'', JStr ''Project not found'')]) req d1
          else json_reply 200 (JObj [(''message'', JStr ''Project deleted successfully'')]) req d1)"

subsection \<open>Task routes\<close>

definition get_tasks :: "'db env \<Rightarrow> request \<Rightarrow> 'db \<Rightarrow> 'db result" where
  "get_tasks E req d =
     (case findAll (Task E) d of
        (Inl error, d1) \<Rightarrow> caught ''Error fetching tasks:'' ''Failed to fetch tasks'' error req d1
      | (Inr tasks, d1) \<Rightarrow> json_reply 200 (JArr (map JObj tasks)) req d1)"

definition get_task :: "'db env \<Rightarrow> request \<Rightarrow> 'db \<Rightarrow> 'db result" where
  "get_task E req d =
     (case findByPk (Task E) (params_id req) d of
        (Inl error, d1) \<Rightarrow> caught ''Error fetching task:'' ''Failed to fetch task'' error req d1
      | (Inr None, d1) \<Rightarrow> json_reply 404 (JObj [(''error'', JStr ''Task not found'')]) req d1
      | (Inr (Some task), d1) \<Rightarrow> json_reply 200 (JObj task) req d1)"

definition post_tasks :: "'db env \<Rightarrow> request \<Rightarrow> 'db \<Rightarrow> 'db result" where
  "post_tasks E req d =
     (case destructure (body req)
             [''title'', ''description'', ''completed'', ''priority'', ''dueDate'', ''projectId''] of
        Inl error \<Rightarrow> caught ''Error creating task:'' ''Failed to create task'' error req d
      | Inr vars \<Rightarrow>
         (case create (Task E) vars d of
            (Inl error, d1) \<Rightarrow> caught ''Error creating task:'' ''Failed to create task'' error req d1
          | (Inr newTask, d1) \<Rightarrow> json_reply 201 (JObj newTask) req d1))"

definition put_task :: "'db env \<Rightarrow> request \<Rightarrow> 'db \<Rightarrow> 'db result" where
  "put_task E req d =
     (case destructure (body req)
             [''title'', ''description'', ''completed'', ''priority'', ''dueDate'', ''projectId''] of
        Inl error \<Rightarrow> caught ''Error updating task:'' ''Failed to update task'' error req d
      | Inr vars \<Rightarrow>
         (case update (Task E) vars (params_id req) d of
            (Inl error, d1) \<Rightarrow> caught ''Error updating task:'' ''Failed to update task'' error req d1
          | (Inr updatedRowsCount, d1) \<Rightarrow>
              if updatedRowsCount = 0
              then json_reply 404 (JObj [(''error'', JStr ''Task not found'')]) req d1
              else
                (case findByPk (Task E) (params_id req) d1 of
                   (Inl error, d2) \<Rightarrow>
                     caught ''Error updating task:'' ''Failed to update task'' error req d2
                 | (Inr updatedTask, d2) \<Rightarrow>
                     json_reply 200 (case updatedTask of Some t \<Rightarrow> JObj t | None \<Rightarrow> Null) req d2)))"

definition delete_task :: "'db env \<Rightarrow> request \<Rightarrow> 'db \<Rightarrow> 'db result" where
  "delete_task E req d =
     (case destroy (Task E) (params_id req) d of
        (Inl error, d1) \<Rightarrow> caught ''Error deleting task:'' ''Failed to delete task'' error req d1
      | (Inr deletedRowsCount, d1) \<Rightarrow>
          if deletedRowsCount = 0
          then json_reply 404 (JObj [(''error'', JStr ''Task not found'')]) req d1
          else json_reply 200 (JObj [(''message'', JStr ''Task deleted successfully'')]) req d1)"

subsection \<open>Registration, login and logout\<close>

definition register :: "'db env \<Rightarrow> request \<Rightarrow> 'db \<Rightarrow> 'db result" where
  "register E req d =
     (case destructure (body req) [''username'', ''email'', ''password''] of
        Inl error \<Rightarrow> caught ''Error registering user:'' ''Failed to register user'' error req d
      | Inr vars \<Rightarrow>
         (case findOne (User E) (field vars ''email'') d of
            (Inl error, d1) \<Rightarrow>
              caught ''Error registering user:'' ''Failed to register user'' error req d1
          | (Inr (Some existingUser), d1) \<Rightarrow>
              json_reply 400 (JObj [(''error'', JStr ''User with this email already exists'')]) req d1
          | (Inr None, d1) \<Rightarrow>
             (case bcrypt_hash E (field vars ''password'') 10 of
                Inl error \<Rightarrow>
                  caught ''Error registering user:'' ''Failed to register user'' error req d1
              | Inr hashedPassword \<Rightarrow>
                 (case create (User E)
                         [(''username'', field vars ''username''), (''email'', field vars ''email''),
                          (''password'', hashedPassword)] d1 of
                    (Inl error, d2) \<Rightarrow>
                      caught ''Error registering user:'' ''Failed to register user'' error req d2
                  | (Inr newUser, d2) \<Rightarrow>
                      json_reply 201
                        (JObj [(''message'', JStr ''User registered successfully''),
                               (''user'', JObj [(''id'', field newUser ''id''),
                                                (''username'', field newUser ''username''),
                                                (''email'', field newUser ''email'')])])
                        req d2))))"

definition login :: "'db env \<Rightarrow> request \<Rightarrow> 'db \<Rightarrow> 'db result" where
  "login E req d =
     (case destructure (body req) [''email'', ''password''] of
        Inl error \<Rightarrow> caught ''Error logging in user'' ''Failed to login'' error req d
      | Inr vars \<Rightarrow>
         (case findOne (User E) (field vars ''email'') d of
            (Inl error, d1) \<Rightarrow> caught ''Error logging in user'' ''Failed to login'' error req d1
          | (Inr None, d1) \<Rightarrow>
              json_reply 401 (JObj [(''error'', JStr ''Invalid email or password'')]) req d1
          | (Inr (Some u), d1) \<Rightarrow>
             (case bcrypt_compare E (field vars ''password'') (field u ''password'') of
                Inl error \<Rightarrow> caught ''Error logging in user'' ''Failed to login'' error req d1
              | Inr isPasswordValid \<Rightarrow>
                  if \<not> isPasswordValid
                  then json_reply 401 (JObj [(''error'', JStr ''Invalid email or password'')]) req d1
                  else
                    (case session req of
                       None \<Rightarrow> caught ''Error logging in user'' ''Failed to login'' TypeError req d1
                     | Some s \<Rightarrow>
                         json_reply 200
                           (JObj [(''message'', JStr ''Login successful''),
                                  (''user'', JObj [(''id'', field u ''id''),
                                                   (''username'', field u ''username''),
                                                   (''email'', field u ''email'')])])
                           (req\<lparr>session := Some (s\<lparr>userId := field u ''id'',
                                                     username := field u ''username'',
                                                     userEmail := field u ''email''\<rparr>)\<rparr>)
                           d1))))"

text \<open>
  Logout has no \<^verbatim>\<open>try\<close>: without a session object \<^verbatim>\<open>req.session.destroy\<close> throws out
  of the handler. A destroyed session leaves \<^verbatim>\<open>req.session\<close> unset.
\<close>

definition logout :: "'db env \<Rightarrow> request \<Rightarrow> 'db \<Rightarrow> 'db result" where
  "logout E req d =
     (case session req of
        None \<Rightarrow> \<lparr>res = Unhandled TypeError, store = d, session_after = None, console = []\<rparr>
      | Some s \<Rightarrow>
         (case session_destroy E s of
            Some err \<Rightarrow>
              \<lparr>res = Response 500 (JObj [(''error'', JStr ''Failed to logout'')]), store = d,
               session_after = Some s, console = [(''Error destroying the session'', err)]\<rparr>
          | None \<Rightarrow>
              \<lparr>res = Response 200 (JObj [(''message'', JStr ''Logout successful'')]), store = d,
               session_after = None, console = []\<rparr>))"

subsection \<open>The routing table\<close>

datatype route =
    GET_projects | GET_projects_id | POST_projects | PUT_projects_id | DELETE_projects_id
  | GET_tasks | GET_tasks_id | POST_tasks | PUT_tasks_id | DELETE_tasks_id
  | POST_register | POST_login | POST_logout

text \<open>The last function registered for each route.\<close>

fun handler :: "'db env \<Rightarrow> route \<Rightarrow> request \<Rightarrow> 'db \<Rightarrow> 'db result" where
  "handler E GET_projects = get_projects E"
| "handler E GET_projects_id = get_project E"
| "handler E POST_projects = post_projects E"
| "handler E PUT_projects_id = put_project E"
| "handler E DELETE_projects_id = delete_project E"
| "handler E GET_tasks = get_tasks E"
| "handler E GET_tasks_id = get_task E"
| "handler E POST_tasks = post_tasks E"
| "handler E PUT_tasks_id = put_task E"
| "handler E DELETE_tasks_id = delete_task E"
| "handler E POST_register = register E"
| "handler E POST_login = login E"
| "handler E POST_logout = logout E"

text \<open>
  The chain registered for each route by \<^verbatim>\<open>app.get\<close>, \<^verbatim>\<open>app.post\<close>, \<^verbatim>\<open>app.put\<close> and
  \<^verbatim>\<open>app.delete\<close>, in the order of the file.
\<close>

fun app :: "'db env \<Rightarrow> route \<Rightarrow> request \<Rightarrow> 'db \<Rightarrow> 'db result" where
  "app E GET_projects = requireAuth (get_projects E)"
| "app E GET_projects_id = get_project E"
| "app E POST_projects = requireAuth (post_projects E)"
| "app E PUT_projects_id = put_project E"
| "app E DELETE_projects_id = delete_project E"
| "app E GET_tasks = get_tasks E"
| "app E GET_tasks_id = get_task E"
| "app E POST_tasks = post_tasks E"
| "app E PUT_tasks_id = put_task E"
| "app E DELETE_tasks_id = delete_task E"
| "app E POST_register = register E"
| "app E POST_login = login E"
| "app E POST_logout = logout E"

section \<open>The persistence collaborator as a keyed table store\<close>

text \<open>
  Modelled from the spec: \<^verbatim>\<open>./database/setup\<close> (the models \<^verbatim>\<open>Project\<close>, \<^verbatim>\<open>Task\<close> and
  \<^verbatim>\<open>User\<close> and the store behind them) is missing from the sources. The spec describes it
  as a conventional relational store with find, create, update and delete by key: create
  stores the given fields under a fresh key and returns the record; update overwrites the
  given fields of the rows with that key, a field given as \<^verbatim>\<open>undefined\<close> included, and
  reports how many rows it affected; delete removes the rows with that key and reports
  how many; users are looked up by email. None of these calls throws.
\<close>

record table =
  rows :: "obj list"
  next_id :: nat

record database =
  projects :: table
  tasks :: table
  users :: table

text \<open>
  Modelled from the spec: lookup by key, which \<^verbatim>\<open>./database/setup\<close> would provide. The
  key of a route is the decimal text of \<^verbatim>\<open>:id\<close>; a row's key is the number in its
  \<^verbatim>\<open>id\<close> field.
\<close>

definition digit_val :: "char \<Rightarrow> nat option" where
  "digit_val c =
     (let n = (of_char c :: nat) in if 48 \<le> n \<and> n \<le> 57 then Some (n - 48) else None)"

fun parse_digits :: "nat \<Rightarrow> string \<Rightarrow> nat option" where
  "parse_digits acc [] = Some acc"
| "parse_digits acc (c # cs) =
     (case digit_val c of None \<Rightarrow> None | Some v \<Rightarrow> parse_digits (10 * acc + v) cs)"

definition parse_key :: "string \<Rightarrow> nat option" where
  "parse_key s = (if s = [] then None else parse_digits 0 s)"

definition has_key :: "string \<Rightarrow> obj \<Rightarrow> bool" where
  "has_key k row =
     (case parse_key k of Some n \<Rightarrow> field row ''id'' = JNum (int n) | None \<Rightarrow> False)"

text \<open>
  Modelled from the spec: the full-field update of the missing store, which overwrites
  the given fields of a row, in the order given, and keeps the others.
\<close>

definition assign :: "obj \<Rightarrow> obj \<Rightarrow> obj" where
  "assign vs row = fold (\<lambda>(k, v). AList.update k v) vs row"

text \<open>
  Modelled from the spec: the operations of a missing model of \<^verbatim>\<open>./database/setup\<close> on
  its table; \<open>sel\<close> reads the table of the model in the store and \<open>put\<close> writes it
  back.
\<close>

definition table_model ::
  "(database \<Rightarrow> table) \<Rightarrow> (table \<Rightarrow> database \<Rightarrow> database) \<Rightarrow> database model" where
  "table_model sel put =
     \<lparr>findAll = (\<lambda>d. (Inr (rows (sel d)), d)),
      findByPk = (\<lambda>k d. (Inr (find (has_key k) (rows (sel d))), d)),
      findOne = (\<lambda>e d. (Inr (find (\<lambda>r. field r ''email'' = e) (rows (sel d))), d)),
      create = (\<lambda>vs d.
        let t = sel d; row = (''id'', JNum (int (next_id t))) # vs
        in (Inr row, put (t\<lparr>rows := rows t @ [row], next_id := Suc (next_id t)\<rparr>) d)),
      update = (\<lambda>vs k d.
        let t = sel d
        in (Inr (length (filter (has_key k) (rows t))),
            put (t\<lparr>rows := map (\<lambda>r. if has_key k r then assign vs r else r) (rows t)\<rparr>) d)),
      destroy = (\<lambda>k d.
        let t = sel d
        in (Inr (length (filter (has_key k) (rows t))),
            put (t\<lparr>rows := filter (\<lambda>r. \<not> has_key k r) (rows t)\<rparr>) d))\<rparr>"

text \<open>
  Modelled from the spec: the collaborators of the server with the table store in the
  place of \<^verbatim>\<open>./database/setup\<close>. bcryptjs and the session store stay parameters:
  \<open>h\<close> is \<^verbatim>\<open>bcrypt.hash\<close>, \<open>c\<close> is \<^verbatim>\<open>bcrypt.compare\<close>, \<open>sd\<close> is
  \<^verbatim>\<open>req.session.destroy\<close>.
\<close>

definition memory ::
  "(json \<Rightarrow> nat \<Rightarrow> exn + json) \<Rightarrow> (json \<Rightarrow> json \<Rightarrow> exn + bool) \<Rightarrow> (session \<Rightarrow> exn option)
     \<Rightarrow> database env" where
  "memory h c sd =
     \<lparr>Project = table_model projects (\<lambda>t d. d\<lparr>projects := t\<rparr>),
      Task = table_model tasks (\<lambda>t d. d\<lparr>tasks := t\<rparr>),
      User = table_model users (\<lambda>t d. d\<lparr>users := t\<rparr>),
      bcrypt_hash = h, bcrypt_compare = c, session_destroy = sd\<rparr>"

section \<open>Persistence calls that throw\<close>





section \<open>A small store and its requests\<close>

text \<open>
  A store with one project, one task and one user, used to run the server on concrete
  requests. The stand-in for bcryptjs prefixes the password; like bcryptjs it rejects a
  password that is not a string.
\<close>

definition demo_hash :: "json \<Rightarrow> nat \<Rightarrow> exn + json" where
  "demo_hash p n =
     (case p of JStr s \<Rightarrow> Inr (JStr (''h:'' @ s))
      | _ \<Rightarrow> Inl (Thrown (JStr ''Illegal arguments'')))"

definition demo_compare :: "json \<Rightarrow> json \<Rightarrow> exn + bool" where
  "demo_compare p h =
     (case p of
        JStr s \<Rightarrow> (case h of JStr t \<Rightarrow> Inr (t = ''h:'' @ s)
                    | _ \<Rightarrow> Inl (Thrown (JStr ''Illegal arguments'')))
      | _ \<Rightarrow> Inl (Thrown (JStr ''Illegal arguments'')))"

definition demo_env :: "database env" where
  "demo_env = memory demo_hash demo_compare (\<lambda>s. None)"

definition demo_db :: database where
  "demo_db =
     \<lparr>projects = \<lparr>rows = [[(''id'', JNum 1), (''name'', JStr ''site''), (''description'', JStr ''d''),
                            (''status'', JStr ''open''), (''dueDate'', Null), (''userId'', JNum 7)]],
                  next_id = 2\<rparr>,
      tasks = \<lparr>rows = [[(''id'', JNum 1), (''title'', JStr ''write''), (''description'', Null),
                         (''completed'', JBool False), (''priority'', JStr ''high''),
                         (''dueDate'', Null), (''projectId'', JNum 1)]],
               next_id = 2\<rparr>,
      users = \<lparr>rows = [[(''id'', JNum 7), (''username'', JStr ''alice''),
                         (''email'', JStr ''alice@x.com''), (''password'', JStr ''h:secret'')]],
               next_id = 8\<rparr>\<rparr>"

definition demo_session :: session where
  "demo_session = \<lparr>userId = JNum 7, username = JStr ''alice'', userEmail = JStr ''alice@x.com''\<rparr>"

definition demo_request :: "string \<Rightarrow> json \<Rightarrow> session option \<Rightarrow> request" where
  "demo_request i b s = \<lparr>params_id = i, body = b, session = s, user = Undefined\<rparr>"

lemmas demo_defs = demo_env_def demo_db_def demo_session_def demo_request_def demo_hash_def
  demo_compare_def memory_def table_model_def

lemmas value_defs = destructure_def member_def nullish_def get_def field_def has_key_def
  parse_key_def digit_val_def assign_def json_reply_def caught_def

section \<open>The authentication gate\<close>

text \<open>
  C4. On a gated route, a request without a resolvable session (no session object, or one
  whose \<^verbatim>\<open>userId\<close> is not truthy) is answered 401 with the authentication-required error,
  whatever the rest of the chain is: the handler is not run, the store is untouched and
  nothing is logged. When the session resolves, the rest of the chain runs on the request
  with the identity \<^verbatim>\<open>{id, username, email}\<close> of the session attached as \<^verbatim>\<open>req.user\<close>.
\<close>

theorem requireAuth_gate:
  "((session req = None \<or> (\<exists>s. session req = Some s \<and> \<not> truthy (userId s))) \<longrightarrow>
      requireAuth next req d =
        \<lparr>res = Response 401 (JObj [(''error'', JStr ''Authentication required. Please log in.'')]),
         store = d, session_after = session req, console = []\<rparr>)
   \<and> (\<forall>s. session req = Some s \<and> truthy (userId s) \<longrightarrow>
      requireAuth next req d =
        next (req\<lparr>user := JObj [(''id'', userId s), (''username'', username s),
                                 (''email'', userEmail s)]\<rparr>) d)"
  by (auto simp: requireAuth_def json_reply_def)

theorem requireAuth_gate_witness:
  "session (demo_request [] Null None) = None
   \<and> requireAuth (get_projects demo_env) (demo_request [] Null None) demo_db =
       \<lparr>res = Response 401 (JObj [(''error'', JStr ''Authentication required. Please log in.'')]),
        store = demo_db, session_after = None, console = []\<rparr>
   \<and> session (demo_request [] Null (Some demo_session)) = Some demo_session
   \<and> truthy (userId demo_session)
   \<and> requireAuth (\<lambda>req d. json_reply 200 (user req) req d)
        (demo_request [] Null (Some demo_session)) demo_db =
       \<lparr>res = Response 200 (JObj [(''id'', JNum 7), (''username'', JStr ''alice''),
                                  (''email'', JStr ''alice@x.com'')]),
        store = demo_db, session_after = Some demo_session, console = []\<rparr>"
  using requireAuth_gate [of "demo_request [] Null None" "get_projects demo_env" demo_db]
    requireAuth_gate [of "demo_request [] Null (Some demo_session)"
      "\<lambda>req d. json_reply 200 (user req) req d" demo_db]
  by (simp add: demo_request_def demo_session_def json_reply_def)

text \<open>
  C10. When the session object exists, the gate looks at the truthiness of its
  \<^verbatim>\<open>userId\<close>, not at its presence: a falsy \<^verbatim>\<open>userId\<close> (\<^verbatim>\<open>undefined\<close>, \<^verbatim>\<open>null\<close>,
  \<^verbatim>\<open>false\<close>, 0, the empty string) is answered 401 without running the rest of the chain,
  and the gate hands the request on, with the identity attached, exactly when
  \<^verbatim>\<open>userId\<close> is truthy.
\<close>

theorem requireAuth_truthy_userId:
  assumes "session req = Some s"
  shows "(\<not> truthy (userId s) \<longrightarrow>
            requireAuth next req (d0::'db) =
              \<lparr>res = Response 401 (JObj [(''error'', JStr ''Authentication required. Please log in.'')]),
               store = d0, session_after = session req, console = []\<rparr>)
       \<and> ((\<forall>next d. requireAuth next req (d::'db) =
              next (req\<lparr>user := JObj [(''id'', userId s), (''username'', username s),
                                       (''email'', userEmail s)]\<rparr>) d)
            \<longleftrightarrow> truthy (userId s))
       \<and> (userId s \<in> {Undefined, Null, JBool False, JNum 0, JStr ''''} \<longrightarrow> \<not> truthy (userId s))"
proof (intro conjI)
  show "\<not> truthy (userId s) \<longrightarrow>
            requireAuth next req d0 =
              \<lparr>res = Response 401 (JObj [(''error'', JStr ''Authentication required. Please log in.'')]),
               store = d0, session_after = session req, console = []\<rparr>"
    using assms by (simp add: requireAuth_def json_reply_def)
next
  show "(\<forall>next d. requireAuth next req (d::'db) =
              next (req\<lparr>user := JObj [(''id'', userId s), (''username'', username s),
                                       (''email'', userEmail s)]\<rparr>) d)
            \<longleftrightarrow> truthy (userId s)"
  proof
    assume admits: "\<forall>next d. requireAuth next req (d::'db) =
              next (req\<lparr>user := JObj [(''id'', userId s), (''username'', username s),
                                       (''email'', userEmail s)]\<rparr>) d"
    show "truthy (userId s)"
    proof (rule ccontr)
      assume falsy: "\<not> truthy (userId s)"
      let ?ok = "\<lambda>(r::request) (d::'db). \<lparr>res = Response 200 Null, store = d,
                    session_after = None, console = []\<rparr>"
      from admits have "res (requireAuth ?ok req undefined) = Response 200 Null"
        by simp
      moreover from falsy assms have "res (requireAuth ?ok req undefined) =
          Response 401 (JObj [(''error'', JStr ''Authentication required. Please log in.'')])"
        by (simp add: requireAuth_def json_reply_def)
      ultimately show False by simp
    qed
  next
    assume "truthy (userId s)"
    with assms show "\<forall>next d. requireAuth next req (d::'db) =
              next (req\<lparr>user := JObj [(''id'', userId s), (''username'', username s),
                                       (''email'', userEmail s)]\<rparr>) d"
      by (simp add: requireAuth_def)
  qed
next
  show "userId s \<in> {Undefined, Null, JBool False, JNum 0, JStr ''''} \<longrightarrow> \<not> truthy (userId s)"
    by auto
qed

theorem requireAuth_truthy_userId_witness:
  "session (demo_request [] Null (Some (demo_session\<lparr>userId := JNum 0\<rparr>))) =
     Some (demo_session\<lparr>userId := JNum 0\<rparr>)
   \<and> \<not> truthy (userId (demo_session\<lparr>userId := JNum 0\<rparr>))
   \<and> res (requireAuth (get_projects demo_env)
        (demo_request [] Null (Some (demo_session\<lparr>userId := JNum 0\<rparr>))) demo_db) =
       Response 401 (JObj [(''error'', JStr ''Authentication required. Please log in.'')])"
  using requireAuth_truthy_userId
    [of "demo_request [] Null (Some (demo_session\<lparr>userId := JNum 0\<rparr>))"
        "demo_session\<lparr>userId := JNum 0\<rparr>" "get_projects demo_env" demo_db]
  by (simp add: demo_request_def demo_session_def)

section \<open>Which routes are gated\<close>

lemmas handler_defs = get_projects_def get_project_def post_projects_def put_project_def
  delete_project_def get_tasks_def get_task_def post_tasks_def put_task_def delete_task_def
  register_def login_def logout_def

lemma ungated_not_401:
  assumes "r \<in> {GET_projects_id, PUT_projects_id, DELETE_projects_id,
               GET_tasks, GET_tasks_id, POST_tasks, PUT_tasks_id, DELETE_tasks_id}"
  shows "status (res (app E r req d)) \<noteq> 401"
  using assms
  by (auto simp: handler_defs json_reply_def caught_def split: if_splits prod.splits sum.splits option.splits)

lemma ungated_ignores_session:
  assumes "r \<in> {GET_projects_id, PUT_projects_id, DELETE_projects_id,
               GET_tasks, GET_tasks_id, POST_tasks, PUT_tasks_id, DELETE_tasks_id}"
  shows "res (app E r (req\<lparr>session := s\<rparr>) d) = res (app E r req d)
       \<and> store (app E r (req\<lparr>session := s\<rparr>) d) = store (app E r req d)
       \<and> console (app E r (req\<lparr>session := s\<rparr>) d) = console (app E r req d)"
  using assms
  by (auto simp: handler_defs json_reply_def caught_def split: if_splits prod.splits sum.splits option.splits)

text \<open>
  C1. The authentication gate stands in front of \<^verbatim>\<open>GET /api/projects\<close> and
  \<^verbatim>\<open>POST /api/projects\<close> and of no other route: these two are the only routes that answer
  every request without a session with the gate's 401. The routes
  \<^verbatim>\<open>GET|PUT|DELETE /api/projects/:id\<close> and all five \<^verbatim>\<open>/api/tasks\<close> routes run their handler
  directly, never answer 401, and their response, their effect on the store and their log
  do not depend on the session.
\<close>

theorem gate_only_on_project_list_and_create:
  "((\<forall>(E::'db env) req d. session req = None \<longrightarrow>
        app E r req d =
          \<lparr>res = Response 401 (JObj [(''error'', JStr ''Authentication required. Please log in.'')]),
           store = d, session_after = None, console = []\<rparr>)
      \<longleftrightarrow> r \<in> {GET_projects, POST_projects})
   \<and> app (E::'db env) r = (if r \<in> {GET_projects, POST_projects} then requireAuth (handler E r)
                 else handler E r)
   \<and> (r \<in> {GET_projects_id, PUT_projects_id, DELETE_projects_id,
             GET_tasks, GET_tasks_id, POST_tasks, PUT_tasks_id, DELETE_tasks_id} \<longrightarrow>
        status (res (app E r req d)) \<noteq> 401
        \<and> res (app E r (req\<lparr>session := s\<rparr>) d) = res (app E r req d)
        \<and> store (app E r (req\<lparr>session := s\<rparr>) d) = store (app E r req d)
        \<and> console (app E r (req\<lparr>session := s\<rparr>) d) = console (app E r req d))"
proof (intro conjI)
  let ?denied = "\<lambda>d::'db. \<lparr>res = Response 401 (JObj [(''error'', JStr ''Authentication required. Please log in.'')]),
           store = d, session_after = None, console = []\<rparr>"
  show "(\<forall>(E::'db env) req d. session req = None \<longrightarrow> app E r req d = ?denied d)
      \<longleftrightarrow> r \<in> {GET_projects, POST_projects}"
  proof
    assume gated: "\<forall>(E::'db env) req d. session req = None \<longrightarrow> app E r req d = ?denied d"
    define M :: "'db model" where
      "M = \<lparr>findAll = (\<lambda>d. (Inl (Thrown Null), d)), findByPk = (\<lambda>k d. (Inl (Thrown Null), d)),
            findOne = (\<lambda>k d. (Inl (Thrown Null), d)), create = (\<lambda>k d. (Inl (Thrown Null), d)),
            update = (\<lambda>v k d. (Inl (Thrown Null), d)), destroy = (\<lambda>k d. (Inl (Thrown Null), d))\<rparr>"
    define E :: "'db env" where
      "E = \<lparr>Project = M, Task = M, User = M, bcrypt_hash = (\<lambda>p n. Inl (Thrown Null)),
            bcrypt_compare = (\<lambda>p h. Inl (Thrown Null)), session_destroy = (\<lambda>s. None)\<rparr>"
    define req where
      "req = \<lparr>params_id = ''1'', body = JObj [], session = None, user = Undefined\<rparr>"
    have no_session: "session req = None"
      by (simp add: req_def)
    from gated no_session have denied: "res (app E r req undefined) =
        Response 401 (JObj [(''error'', JStr ''Authentication required. Please log in.'')])"
      by simp
    show "r \<in> {GET_projects, POST_projects}"
    proof (rule ccontr)
      assume other: "r \<notin> {GET_projects, POST_projects}"
      have "status (res (app E r req undefined)) = 500"
        using other
        by (cases r)
           (simp_all add: handler_defs caught_def destructure_def nullish_def E_def M_def req_def)
      with denied show False by simp
    qed
  next
    assume "r \<in> {GET_projects, POST_projects}"
    then show "\<forall>(E::'db env) req d. session req = None \<longrightarrow> app E r req d = ?denied d"
      by (auto simp: requireAuth_def json_reply_def)
  qed
next
  show "app E r = (if r \<in> {GET_projects, POST_projects} then requireAuth (handler E r)
                 else handler E r)"
    by (cases r) simp_all
next
  show "r \<in> {GET_projects_id, PUT_projects_id, DELETE_projects_id,
             GET_tasks, GET_tasks_id, POST_tasks, PUT_tasks_id, DELETE_tasks_id} \<longrightarrow>
        status (res (app E r req d)) \<noteq> 401
        \<and> res (app E r (req\<lparr>session := s\<rparr>) d) = res (app E r req d)
        \<and> store (app E r (req\<lparr>session := s\<rparr>) d) = store (app E r req d)
        \<and> console (app E r (req\<lparr>session := s\<rparr>) d) = console (app E r req d)"
    using ungated_not_401 [where r=r and E=E and req=req and d=d]
      ungated_ignores_session [where r=r and E=E and req=req and d=d and s=s] by blast
qed

theorem gate_only_on_project_list_and_create_witness:
  "PUT_projects_id \<in> {GET_projects_id, PUT_projects_id, DELETE_projects_id,
             GET_tasks, GET_tasks_id, POST_tasks, PUT_tasks_id, DELETE_tasks_id}
   \<and> status (res (app demo_env PUT_projects_id
         (demo_request ''1'' (JObj [(''name'', JStr ''b'')]) None) demo_db)) = 200
   \<and> res (app demo_env PUT_projects_id
         (demo_request ''1'' (JObj [(''name'', JStr ''b'')]) (Some demo_session)) demo_db) =
     res (app demo_env PUT_projects_id
         (demo_request ''1'' (JObj [(''name'', JStr ''b'')]) None) demo_db)"
  using gate_only_on_project_list_and_create [of PUT_projects_id demo_env
      "demo_request ''1'' (JObj [(''name'', JStr ''b'')]) None" demo_db "Some demo_session"]
  by (simp add: demo_defs value_defs put_project_def)

section \<open>Reading values\<close>

lemma get_JObj: "get (JObj kvs) k = field kvs k"
  by (simp add: get_def)

lemma field_Nil: "field [] k = Undefined"
  by (simp add: field_def)

lemma field_Cons: "field ((k, v) # kvs) k' = (if k' = k then v else field kvs k')"
  by (simp add: field_def)

section \<open>Creating a project\<close>

text \<open>
  C2. For a create-project request of an authenticated user (a session whose \<^verbatim>\<open>userId\<close>
  is truthy), whatever the body: a body that cannot be destructured is answered 500 and
  nothing is handed to the store; otherwise the record handed to \<^verbatim>\<open>Project.create\<close> has
  exactly the fields name, description, status, dueDate and userId, its \<^verbatim>\<open>userId\<close> is the
  \<^verbatim>\<open>userId\<close> of the session, and the only values taken from the body are the four named
  fields, so an owner or \<^verbatim>\<open>userId\<close> in the body has no influence.
\<close>

theorem created_project_owner_is_session_user:
  assumes "session req = Some s" and "truthy (userId s)"
  shows "(nullish (body req) \<longrightarrow>
           (\<forall>(E::'db env) d. app E POST_projects req d =
              \<lparr>res = Response 500 (JObj [(''error'', JStr ''Failed to create project'')]),
               store = d, session_after = session req,
               console = [(''Error creating project:'', TypeError)]\<rparr>))
       \<and> (\<not> nullish (body req) \<longrightarrow>
           (\<exists>vals.
              map fst vals = [''name'', ''description'', ''status'', ''dueDate'', ''userId'']
              \<and> field vals ''userId'' = userId s
              \<and> (\<forall>k \<in> {''name'', ''description'', ''status'', ''dueDate''}.
                    field vals k = get (body req) k)
              \<and> (\<forall>(E::'db env) d. app E POST_projects req d =
                   (case create (Project E) vals d of
                      (Inl error, d1) \<Rightarrow>
                        \<lparr>res = Response 500 (JObj [(''error'', JStr ''Failed to create project'')]),
                         store = d1, session_after = session req,
                         console = [(''Error creating project:'', error)]\<rparr>
                    | (Inr newProject, d1) \<Rightarrow>
                        \<lparr>res = Response 201 (JObj newProject), store = d1,
                         session_after = session req, console = []\<rparr>))))"
proof (intro conjI impI)
  assume "nullish (body req)"
  with assms show "\<forall>(E::'db env) d. app E POST_projects req d =
              \<lparr>res = Response 500 (JObj [(''error'', JStr ''Failed to create project'')]),
               store = d, session_after = session req,
               console = [(''Error creating project:'', TypeError)]\<rparr>"
    by (simp add: requireAuth_def post_projects_def destructure_def caught_def)
next
  assume parsed: "\<not> nullish (body req)"
  let ?vals = "[(''name'', get (body req) ''name''), (''description'', get (body req) ''description''),
                  (''status'', get (body req) ''status''), (''dueDate'', get (body req) ''dueDate''),
                  (''userId'', userId s)]"
  have "map fst ?vals = [''name'', ''description'', ''status'', ''dueDate'', ''userId'']"
    by simp
  moreover have "field ?vals ''userId'' = userId s"
    by (simp add: field_def)
  moreover have "\<forall>k \<in> {''name'', ''description'', ''status'', ''dueDate''}.
                    field ?vals k = get (body req) k"
    by (simp add: field_def)
  moreover have "\<forall>(E::'db env) d. app E POST_projects req d =
                   (case create (Project E) ?vals d of
                      (Inl error, d1) \<Rightarrow>
                        \<lparr>res = Response 500 (JObj [(''error'', JStr ''Failed to create project'')]),
                         store = d1, session_after = session req,
                         console = [(''Error creating project:'', error)]\<rparr>
                    | (Inr newProject, d1) \<Rightarrow>
                        \<lparr>res = Response 201 (JObj newProject), store = d1,
                         session_after = session req, console = []\<rparr>)"
    using assms parsed
    by (simp add: requireAuth_def post_projects_def destructure_def member_def nullish_def
        get_JObj field_def caught_def json_reply_def split: prod.splits sum.splits)
  ultimately show "\<exists>vals.
              map fst vals = [''name'', ''description'', ''status'', ''dueDate'', ''userId'']
              \<and> field vals ''userId'' = userId s
              \<and> (\<forall>k \<in> {''name'', ''description'', ''status'', ''dueDate''}.
                    field vals k = get (body req) k)
              \<and> (\<forall>(E::'db env) d. app E POST_projects req d =
                   (case create (Project E) vals d of
                      (Inl error, d1) \<Rightarrow>
                        \<lparr>res = Response 500 (JObj [(''error'', JStr ''Failed to create project'')]),
                         store = d1, session_after = session req,
                         console = [(''Error creating project:'', error)]\<rparr>
                    | (Inr newProject, d1) \<Rightarrow>
                        \<lparr>res = Response 201 (JObj newProject), store = d1,
                         session_after = session req, console = []\<rparr>))"
    by (intro exI [of _ ?vals] conjI)
qed

theorem created_project_owner_is_session_user_witness:
  "session (demo_request [] (JObj [(''name'', JStr ''b''), (''userId'', JNum 99)]) (Some demo_session))
     = Some demo_session
   \<and> truthy (userId demo_session)
   \<and> (\<exists>p. res (app demo_env POST_projects
               (demo_request [] (JObj [(''name'', JStr ''b''), (''userId'', JNum 99)])
                  (Some demo_session)) demo_db) = Response 201 (JObj p)
          \<and> field p ''userId'' = JNum 7)"
proof -
  let ?R = "demo_request [] (JObj [(''name'', JStr ''b''), (''userId'', JNum 99)]) (Some demo_session)"
  have s: "session ?R = Some demo_session"
    by (simp add: demo_request_def)
  have t: "truthy (userId demo_session)"
    by (simp add: demo_session_def)
  have b: "\<not> nullish (body ?R)"
    by (simp add: demo_request_def nullish_def)
  from created_project_owner_is_session_user [OF s t] b obtain vs where
    owner: "field vs ''userId'' = userId demo_session" and
    run: "\<forall>(E::database env) d. app E POST_projects ?R d =
            (case create (Project E) vs d of
               (Inl error, d1) \<Rightarrow>
                 \<lparr>res = Response 500 (JObj [(''error'', JStr ''Failed to create project'')]),
                  store = d1, session_after = session ?R,
                  console = [(''Error creating project:'', error)]\<rparr>
             | (Inr newProject, d1) \<Rightarrow>
                 \<lparr>res = Response 201 (JObj newProject), store = d1,
                  session_after = session ?R, console = []\<rparr>)"
    by blast
  from run have "app demo_env POST_projects ?R demo_db =
            (case create (Project demo_env) vs demo_db of
               (Inl error, d1) \<Rightarrow>
                 \<lparr>res = Response 500 (JObj [(''error'', JStr ''Failed to create project'')]),
                  store = d1, session_after = session ?R,
                  console = [(''Error creating project:'', error)]\<rparr>
             | (Inr newProject, d1) \<Rightarrow>
                 \<lparr>res = Response 201 (JObj newProject), store = d1,
                  session_after = session ?R, console = []\<rparr>)"
    by blast
  then have "res (app demo_env POST_projects ?R demo_db) =
      Response 201 (JObj ((''id'', JNum 2) # vs))"
    by (simp add: demo_env_def memory_def table_model_def demo_db_def Let_def)
  moreover from owner have "field ((''id'', JNum 2) # vs) ''userId'' = JNum 7"
    by (simp add: field_def demo_session_def)
  ultimately show ?thesis
    using s t by blast
qed

section \<open>Login failures\<close>

lemma login_unknown_email:
  assumes "\<not> nullish (body req)"
    and "fst (findOne (User E) (get (body req) ''email'') d) = Inr None"
  shows "login E req d =
           json_reply 401 (JObj [(''error'', JStr ''Invalid email or password'')]) req
             (snd (findOne (User E) (get (body req) ''email'') d))"
proof -
  obtain d1 where "findOne (User E) (get (body req) ''email'') d = (Inr None, d1)"
    using assms(2) by (cases "findOne (User E) (get (body req) ''email'') d") simp
  with assms(1) show ?thesis
    by (simp add: login_def destructure_def field_def)
qed

lemma login_wrong_password:
  assumes "\<not> nullish (body req)"
    and "fst (findOne (User E) (get (body req) ''email'') d) = Inr (Some u)"
    and "bcrypt_compare E (get (body req) ''password'') (field u ''password'') = Inr False"
  shows "login E req d =
           json_reply 401 (JObj [(''error'', JStr ''Invalid email or password'')]) req
             (snd (findOne (User E) (get (body req) ''email'') d))"
proof -
  obtain d1 where "findOne (User E) (get (body req) ''email'') d = (Inr (Some u), d1)"
    using assms(2) by (cases "findOne (User E) (get (body req) ''email'') d") simp
  moreover have "field [(''email'', get (body req) ''email''),
      (''password'', get (body req) ''password'')] ''password'' = get (body req) ''password''"
    by (simp add: field_def)
  moreover have "field [(''email'', get (body req) ''email''),
      (''password'', get (body req) ''password'')] ''email'' = get (body req) ''email''"
    by (simp add: field_def)
  ultimately show ?thesis
    using assms(1,3) by (simp add: login_def destructure_def)
qed

lemma login_failures_alike_when_compare_is_false:
  assumes "\<not> nullish (body req1)"
    and "fst (findOne (User E1) (get (body req1) ''email'') d1) = Inr None"
    and "\<not> nullish (body req2)"
    and "fst (findOne (User E2) (get (body req2) ''email'') d2) = Inr (Some u)"
    and "bcrypt_compare E2 (get (body req2) ''password'') (field u ''password'') = Inr False"
  shows "res (app E1 POST_login req1 d1) =
           Response 401 (JObj [(''error'', JStr ''Invalid email or password'')])
       \<and> res (app E2 POST_login req2 d2) =
           Response 401 (JObj [(''error'', JStr ''Invalid email or password'')])
       \<and> res (app E2 POST_login req2 d2) = res (app E1 POST_login req1 d1)
       \<and> console (app E1 POST_login req1 d1) = [] \<and> console (app E2 POST_login req2 d2) = []
       \<and> session_after (app E1 POST_login req1 d1) = session req1
       \<and> session_after (app E2 POST_login req2 d2) = session req2"
  using login_unknown_email [OF assms(1,2)] login_wrong_password [OF assms(3,4,5)]
  by (simp add: json_reply_def)

text \<open>
  When \<^verbatim>\<open>bcrypt.compare\<close> throws instead of resolving, which bcryptjs does for a password
  that is not a string, the login of a known email leaves the \<^verbatim>\<open>try\<close> block: the
  \<^verbatim>\<open>catch\<close> block answers 500.
\<close>

lemma login_compare_throws:
  assumes "\<not> nullish (body req)"
    and "fst (findOne (User E) (get (body req) ''email'') d) = Inr (Some u)"
    and "bcrypt_compare E (get (body req) ''password'') (field u ''password'') = Inl e"
  shows "login E req d =
           caught ''Error logging in user'' ''Failed to login'' e req
             (snd (findOne (User E) (get (body req) ''email'') d))"
proof -
  obtain d1 where "findOne (User E) (get (body req) ''email'') d = (Inr (Some u), d1)"
    using assms(2) by (cases "findOne (User E) (get (body req) ''email'') d") simp
  moreover have "field [(''email'', get (body req) ''email''),
      (''password'', get (body req) ''password'')] ''password'' = get (body req) ''password''"
    by (simp add: field_def)
  moreover have "field [(''email'', get (body req) ''email''),
      (''password'', get (body req) ''password'')] ''email'' = get (body req) ''email''"
    by (simp add: field_def)
  ultimately show ?thesis
    using assms(1,3) by (simp add: login_def destructure_def)
qed

text \<open>
  C3. A login whose email matches no user and a login whose email matches a user whose
  password does not verify are to be answered with the same 401. The handler does so when
  \<^verbatim>\<open>bcrypt.compare\<close> resolves to false. It does not for every login request: with the
  password missing from the body, the login of the known email \<^verbatim>\<open>alice@x.com\<close> reaches
  \<^verbatim>\<open>bcrypt.compare\<close>, which throws, and is answered 500 \<^verbatim>\<open>{error: "Failed to login"}\<close>,
  while the same login of the unknown email \<^verbatim>\<open>nobody@x.com\<close> is answered 401
  \<^verbatim>\<open>{error: "Invalid email or password"}\<close> before any comparison. The two responses
  differ, so they tell whether the email is registered.
\<close>

theorem login_missing_password_reveals_known_email:
  "bcrypt_compare demo_env Undefined (JStr ''h:secret'') = Inl (Thrown (JStr ''Illegal arguments''))
   \<and> app demo_env POST_login
         (demo_request [] (JObj [(''email'', JStr ''alice@x.com'')]) None) demo_db =
       \<lparr>res = Response 500 (JObj [(''error'', JStr ''Failed to login'')]), store = demo_db,
        session_after = None,
        console = [(''Error logging in user'', Thrown (JStr ''Illegal arguments''))]\<rparr>
   \<and> app demo_env POST_login
         (demo_request [] (JObj [(''email'', JStr ''nobody@x.com'')]) None) demo_db =
       \<lparr>res = Response 401 (JObj [(''error'', JStr ''Invalid email or password'')]),
        store = demo_db, session_after = None, console = []\<rparr>
   \<and> res (app demo_env POST_login
         (demo_request [] (JObj [(''email'', JStr ''alice@x.com'')]) None) demo_db) \<noteq>
       res (app demo_env POST_login
         (demo_request [] (JObj [(''email'', JStr ''nobody@x.com'')]) None) demo_db)"
proof -
  let ?known = "demo_request [] (JObj [(''email'', JStr ''alice@x.com'')]) None"
  let ?unknown = "demo_request [] (JObj [(''email'', JStr ''nobody@x.com'')]) None"
  let ?alice = "[(''id'', JNum 7), (''username'', JStr ''alice''),
                 (''email'', JStr ''alice@x.com''), (''password'', JStr ''h:secret'')]"
  have throws: "bcrypt_compare demo_env Undefined (JStr ''h:secret'') =
      Inl (Thrown (JStr ''Illegal arguments''))"
    by (simp add: demo_env_def memory_def demo_compare_def)
  have parsed: "\<not> nullish (body ?known)" "\<not> nullish (body ?unknown)"
    by (simp_all add: demo_request_def nullish_def)
  have found: "findOne (User demo_env) (get (body ?known) ''email'') demo_db =
      (Inr (Some ?alice), demo_db)"
    by (simp add: demo_defs get_def field_def)
  have absent: "findOne (User demo_env) (get (body ?unknown) ''email'') demo_db =
      (Inr None, demo_db)"
    by (simp add: demo_defs get_def field_def)
  have missing: "get (body ?known) ''password'' = Undefined"
    by (simp add: demo_request_def get_def field_def)
  have "login demo_env ?known demo_db =
      caught ''Error logging in user'' ''Failed to login'' (Thrown (JStr ''Illegal arguments''))
        ?known demo_db"
    using login_compare_throws [of ?known demo_env demo_db ?alice "Thrown (JStr ''Illegal arguments'')"]
      parsed(1) found missing throws
    by (simp add: field_def)
  then have known: "app demo_env POST_login ?known demo_db =
       \<lparr>res = Response 500 (JObj [(''error'', JStr ''Failed to login'')]), store = demo_db,
        session_after = None,
        console = [(''Error logging in user'', Thrown (JStr ''Illegal arguments''))]\<rparr>"
    by (simp add: caught_def demo_request_def)
  have "login demo_env ?unknown demo_db =
      json_reply 401 (JObj [(''error'', JStr ''Invalid email or password'')]) ?unknown demo_db"
    using login_unknown_email [of ?unknown demo_env demo_db] parsed(2) absent
    by simp
  then have unknown: "app demo_env POST_login ?unknown demo_db =
       \<lparr>res = Response 401 (JObj [(''error'', JStr ''Invalid email or password'')]),
        store = demo_db, session_after = None, console = []\<rparr>"
    by (simp add: json_reply_def demo_request_def)
  have "res (app demo_env POST_login ?known demo_db) \<noteq>
      res (app demo_env POST_login ?unknown demo_db)"
    by (simp only: known unknown) simp
  with throws known unknown show ?thesis
    by (intro conjI)
qed

section \<open>Registration\<close>

text \<open>
  C6. Every 201 response of a registration carries the message and a user object with
  exactly the keys id, username and email, whose values are read from the fields of the
  same names of the created record; the password field of that record, where the hash
  was stored, is not read, and the object has no password key.
\<close>

theorem registration_response_user_fields:
  assumes "res (app E POST_register req d) = Response 201 v"
  shows "\<exists>newUser h d1 d2.
           bcrypt_hash E (get (body req) ''password'') 10 = Inr h
         \<and> create (User E) [(''username'', get (body req) ''username''),
                             (''email'', get (body req) ''email''), (''password'', h)] d1
             = (Inr newUser, d2)
         \<and> v = JObj [(''message'', JStr ''User registered successfully''),
                      (''user'', JObj [(''id'', field newUser ''id''),
                                       (''username'', field newUser ''username''),
                                       (''email'', field newUser ''email'')])]
         \<and> (\<exists>u. get v ''user'' = JObj u \<and> map fst u = [''id'', ''username'', ''email'']
                \<and> ''password'' \<notin> set (map fst u))"
proof -
  let ?ks = "[''username'', ''email'', ''password'']"
  from assms have reg: "res (register E req d) = Response 201 v"
    by simp
  show ?thesis
  proof (cases "destructure (body req) ?ks")
    case (Inl e)
    with reg show ?thesis
      by (simp add: register_def caught_def)
  next
    case (Inr vars)
    then have vars: "vars = [(''username'', get (body req) ''username''),
        (''email'', get (body req) ''email''), (''password'', get (body req) ''password'')]"
      by (simp add: destructure_def split: if_splits)
    obtain r1 d1 where find: "findOne (User E) (field vars ''email'') d = (r1, d1)"
      by (cases "findOne (User E) (field vars ''email'') d")
    show ?thesis
    proof (cases r1)
      case (Inl e)
      with reg Inr find show ?thesis
        by (simp add: register_def caught_def)
    next
      case found: (Inr existing)
      show ?thesis
      proof (cases existing)
        case (Some existingUser)
        with reg Inr find found show ?thesis
          by (simp add: register_def json_reply_def)
      next
        case None
        show ?thesis
        proof (cases "bcrypt_hash E (field vars ''password'') 10")
          case (Inl e)
          with reg Inr find found None show ?thesis
            by (simp add: register_def caught_def)
        next
          case hashed: (Inr h)
          let ?vals = "[(''username'', field vars ''username''), (''email'', field vars ''email''),
                          (''password'', h)]"
          obtain r2 d2 where made: "create (User E) ?vals d1 = (r2, d2)"
            by (cases "create (User E) ?vals d1")
          show ?thesis
          proof (cases r2)
            case (Inl e)
            with reg Inr find found None hashed made show ?thesis
              by (simp add: register_def caught_def)
          next
            case (Inr newUser)
            with reg \<open>destructure (body req) ?ks = Inr vars\<close> find found None hashed made
            have v: "v = JObj [(''message'', JStr ''User registered successfully''),
                      (''user'', JObj [(''id'', field newUser ''id''),
                                       (''username'', field newUser ''username''),
                                       (''email'', field newUser ''email'')])]"
              by (simp add: register_def json_reply_def)
            show ?thesis
            proof (rule exI [of _ newUser], rule exI [of _ h], rule exI [of _ d1],
                rule exI [of _ d2], intro conjI)
              show "bcrypt_hash E (get (body req) ''password'') 10 = Inr h"
                using hashed by (simp add: vars field_Cons)
              show "create (User E) [(''username'', get (body req) ''username''),
                             (''email'', get (body req) ''email''), (''password'', h)] d1
                  = (Inr newUser, d2)"
                using made Inr by (simp add: vars field_Cons)
              show "v = JObj [(''message'', JStr ''User registered successfully''),
                      (''user'', JObj [(''id'', field newUser ''id''),
                                       (''username'', field newUser ''username''),
                                       (''email'', field newUser ''email'')])]"
                by (rule v)
              show "\<exists>u. get v ''user'' = JObj u \<and> map fst u = [''id'', ''username'', ''email'']
                  \<and> ''password'' \<notin> set (map fst u)"
                by (simp add: v get_def field_Cons)
            qed
          qed
        qed
      qed
    qed
  qed
qed

theorem registration_response_user_fields_witness:
  "res (app demo_env POST_register
     (demo_request [] (JObj [(''username'', JStr ''bob''), (''email'', JStr ''bob@x.com''),
                             (''password'', JStr ''pw'')]) None) demo_db) =
     Response 201 (JObj [(''message'', JStr ''User registered successfully''),
                         (''user'', JObj [(''id'', JNum 8), (''username'', JStr ''bob''),
                                          (''email'', JStr ''bob@x.com'')])])
   \<and> (\<exists>u. get (JObj [(''message'', JStr ''User registered successfully''),
                         (''user'', JObj [(''id'', JNum 8), (''username'', JStr ''bob''),
                                          (''email'', JStr ''bob@x.com'')])]) ''user'' = JObj u
          \<and> ''password'' \<notin> set (map fst u))"
proof -
  have run: "res (app demo_env POST_register
     (demo_request [] (JObj [(''username'', JStr ''bob''), (''email'', JStr ''bob@x.com''),
                             (''password'', JStr ''pw'')]) None) demo_db) =
     Response 201 (JObj [(''message'', JStr ''User registered successfully''),
                         (''user'', JObj [(''id'', JNum 8), (''username'', JStr ''bob''),
                                          (''email'', JStr ''bob@x.com'')])])"
    by (simp add: demo_defs value_defs register_def Let_def)
  from registration_response_user_fields [OF run] run show ?thesis
    by blast
qed

lemma register_existing_email:
  assumes "\<not> nullish (body req)"
    and "\<exists>u \<in> set (rows (users d)). field u ''email'' = get (body req) ''email''"
  shows "register (memory h c sd) req d =
           json_reply 400 (JObj [(''error'', JStr ''User with this email already exists'')]) req d"
proof -
  from assms(2) obtain u where
    "find (\<lambda>r. field r ''email'' = get (body req) ''email'') (rows (users d)) = Some u"
    by (cases "find (\<lambda>r. field r ''email'' = get (body req) ''email'') (rows (users d))")
       (auto simp: find_None_iff)
  with assms(1) show ?thesis
    by (simp add: register_def memory_def table_model_def destructure_def field_Cons)
qed

lemma register_memory:
  "register (memory h c sd) req d =
     (if nullish (body req)
      then caught ''Error registering user:'' ''Failed to register user'' TypeError req d
      else
        (case find (\<lambda>r. field r ''email'' = get (body req) ''email'') (rows (users d)) of
           Some u \<Rightarrow>
             json_reply 400 (JObj [(''error'', JStr ''User with this email already exists'')]) req d
         | None \<Rightarrow>
            (case h (get (body req) ''password'') 10 of
               Inl e \<Rightarrow> caught ''Error registering user:'' ''Failed to register user'' e req d
             | Inr hp \<Rightarrow>
                 json_reply 201
                   (JObj [(''message'', JStr ''User registered successfully''),
                          (''user'', JObj [(''id'', JNum (int (next_id (users d)))),
                                           (''username'', get (body req) ''username''),
                                           (''email'', get (body req) ''email'')])])
                   req
                   (d\<lparr>users := (users d)\<lparr>rows := rows (users d) @
                        [[(''id'', JNum (int (next_id (users d)))),
                          (''username'', get (body req) ''username''),
                          (''email'', get (body req) ''email''), (''password'', hp)]],
                      next_id := Suc (next_id (users d))\<rparr>\<rparr>))))"
proof (cases "nullish (body req)")
  case True
  then show ?thesis
    by (simp add: register_def destructure_def)
next
  case parsed: False
  show ?thesis
  proof (cases "find (\<lambda>r. field r ''email'' = get (body req) ''email'') (rows (users d))")
    case (Some u)
    with parsed show ?thesis
      by (simp add: register_def memory_def table_model_def destructure_def field_Cons)
  next
    case None
    show ?thesis
    proof (cases "h (get (body req) ''password'') 10")
      case (Inl e)
      with parsed None show ?thesis
        by (simp add: register_def memory_def table_model_def destructure_def field_Cons)
    next
      case (Inr hp)
      with parsed None show ?thesis
        by (simp add: register_def memory_def table_model_def destructure_def field_Cons Let_def)
    qed
  qed
qed

lemma register_created:
  assumes "status (res (register (memory h c sd) req d)) = 201"
  shows "\<exists>hp. store (register (memory h c sd) req d) =
           d\<lparr>users := (users d)\<lparr>rows := rows (users d) @
               [[(''id'', JNum (int (next_id (users d)))),
                 (''username'', get (body req) ''username''),
                 (''email'', get (body req) ''email''), (''password'', hp)]],
             next_id := Suc (next_id (users d))\<rparr>\<rparr>"
  using assms unfolding register_memory
  by (auto simp: json_reply_def caught_def split: if_splits option.splits sum.splits)

text \<open>
  C5. On the table store: a registration whose email is already the email of a stored user
  is answered 400 and leaves the store as it was. Hence, when a registration has been
  answered 201, a second registration with the same email on the resulting store is
  answered 400, changes nothing, and the user table has exactly one row more than before
  the first registration.
\<close>

theorem duplicate_email_is_rejected:
  assumes "\<not> nullish (body req)"
  shows "((\<exists>u \<in> set (rows (users d)). field u ''email'' = get (body req) ''email'') \<longrightarrow>
            app (memory h c sd) POST_register req d =
              \<lparr>res = Response 400 (JObj [(''error'', JStr ''User with this email already exists'')]),
               store = d, session_after = session req, console = []\<rparr>)
       \<and> (\<forall>req0 d0. status (res (app (memory h c sd) POST_register req0 d0)) = 201
              \<and> d = store (app (memory h c sd) POST_register req0 d0)
              \<and> get (body req) ''email'' = get (body req0) ''email'' \<longrightarrow>
            status (res (app (memory h c sd) POST_register req d)) = 400
            \<and> store (app (memory h c sd) POST_register req d) = d
            \<and> length (rows (users (store (app (memory h c sd) POST_register req d)))) =
                Suc (length (rows (users d0))))"
proof (intro conjI impI allI)
  assume "\<exists>u \<in> set (rows (users d)). field u ''email'' = get (body req) ''email''"
  then show "app (memory h c sd) POST_register req d =
              \<lparr>res = Response 400 (JObj [(''error'', JStr ''User with this email already exists'')]),
               store = d, session_after = session req, console = []\<rparr>"
    by (simp add: register_existing_email [OF assms] json_reply_def)
next
  fix req0 d0
  assume first: "status (res (app (memory h c sd) POST_register req0 d0)) = 201
              \<and> d = store (app (memory h c sd) POST_register req0 d0)
              \<and> get (body req) ''email'' = get (body req0) ''email''"
  then obtain hp where d: "d = d0\<lparr>users := (users d0)\<lparr>rows := rows (users d0) @
               [[(''id'', JNum (int (next_id (users d0)))),
                 (''username'', get (body req0) ''username''),
                 (''email'', get (body req0) ''email''), (''password'', hp)]],
             next_id := Suc (next_id (users d0))\<rparr>\<rparr>"
    using register_created [of h c sd req0 d0] by auto
  from first have same: "get (body req) ''email'' = get (body req0) ''email''"
    by simp
  have present: "\<exists>u \<in> set (rows (users d)). field u ''email'' = get (body req) ''email''"
    by (simp add: d same field_Cons)
  have second: "app (memory h c sd) POST_register req d =
      json_reply 400 (JObj [(''error'', JStr ''User with this email already exists'')]) req d"
    by (simp add: register_existing_email [OF assms present])
  show "status (res (app (memory h c sd) POST_register req d)) = 400"
    by (simp only: second) (simp add: json_reply_def)
  show "store (app (memory h c sd) POST_register req d) = d"
    by (simp only: second) (simp add: json_reply_def)
  show "length (rows (users (store (app (memory h c sd) POST_register req d)))) =
                Suc (length (rows (users d0)))"
    by (simp only: second) (simp add: json_reply_def d)
qed

theorem duplicate_email_is_rejected_witness:
  "app demo_env POST_register
     (demo_request [] (JObj [(''username'', JStr ''eve''), (''email'', JStr ''alice@x.com''),
                             (''password'', JStr ''pw'')]) None) demo_db =
     \<lparr>res = Response 400 (JObj [(''error'', JStr ''User with this email already exists'')]),
      store = demo_db, session_after = None, console = []\<rparr>
   \<and> status (res (app demo_env POST_register
        (demo_request [] (JObj [(''username'', JStr ''bob''), (''email'', JStr ''bob@x.com''),
                                (''password'', JStr ''pw'')]) None) demo_db)) = 201
   \<and> status (res (app demo_env POST_register
        (demo_request [] (JObj [(''username'', JStr ''rob''), (''email'', JStr ''bob@x.com''),
                                (''password'', JStr ''other'')]) None)
        (store (app demo_env POST_register
           (demo_request [] (JObj [(''username'', JStr ''bob''), (''email'', JStr ''bob@x.com''),
                                   (''password'', JStr ''pw'')]) None) demo_db)))) = 400
   \<and> length (rows (users (store (app demo_env POST_register
        (demo_request [] (JObj [(''username'', JStr ''rob''), (''email'', JStr ''bob@x.com''),
                                (''password'', JStr ''other'')]) None)
        (store (app demo_env POST_register
           (demo_request [] (JObj [(''username'', JStr ''bob''), (''email'', JStr ''bob@x.com''),
                                   (''password'', JStr ''pw'')]) None) demo_db)))))) = 2"
proof -
  let ?eve = "demo_request [] (JObj [(''username'', JStr ''eve''), (''email'', JStr ''alice@x.com''),
                             (''password'', JStr ''pw'')]) None"
  let ?bob = "demo_request [] (JObj [(''username'', JStr ''bob''), (''email'', JStr ''bob@x.com''),
                                (''password'', JStr ''pw'')]) None"
  let ?rob = "demo_request [] (JObj [(''username'', JStr ''rob''), (''email'', JStr ''bob@x.com''),
                                (''password'', JStr ''other'')]) None"
  have eve: "\<not> nullish (body ?eve)"
    by (simp add: demo_request_def nullish_def)
  have present: "\<exists>u \<in> set (rows (users demo_db)). field u ''email'' = get (body ?eve) ''email''"
    by (simp add: demo_db_def demo_request_def get_def field_def)
  from duplicate_email_is_rejected [OF eve, of demo_db demo_hash demo_compare "\<lambda>s. None"] present
  have "app demo_env POST_register ?eve demo_db =
      \<lparr>res = Response 400 (JObj [(''error'', JStr ''User with this email already exists'')]),
       store = demo_db, session_after = session ?eve, console = []\<rparr>"
    unfolding demo_env_def by blast
  then have one: "app demo_env POST_register ?eve demo_db =
      \<lparr>res = Response 400 (JObj [(''error'', JStr ''User with this email already exists'')]),
       store = demo_db, session_after = None, console = []\<rparr>"
    by (simp add: demo_request_def)
  have first: "status (res (app demo_env POST_register ?bob demo_db)) = 201"
    by (simp add: demo_defs value_defs register_def Let_def)
  have rob: "\<not> nullish (body ?rob)"
    by (simp add: demo_request_def nullish_def)
  have same: "get (body ?rob) ''email'' = get (body ?bob) ''email''"
    by (simp add: demo_request_def get_def field_def)
  from duplicate_email_is_rejected [OF rob,
      of "store (app demo_env POST_register ?bob demo_db)" demo_hash demo_compare "\<lambda>s. None"]
  have "\<forall>req0 d0. status (res (app demo_env POST_register req0 d0)) = 201
          \<and> store (app demo_env POST_register ?bob demo_db) = store (app demo_env POST_register req0 d0)
          \<and> get (body ?rob) ''email'' = get (body req0) ''email'' \<longrightarrow>
        status (res (app demo_env POST_register ?rob
          (store (app demo_env POST_register ?bob demo_db)))) = 400
        \<and> store (app demo_env POST_register ?rob (store (app demo_env POST_register ?bob demo_db))) =
            store (app demo_env POST_register ?bob demo_db)
        \<and> length (rows (users (store (app demo_env POST_register ?rob
            (store (app demo_env POST_register ?bob demo_db)))))) = Suc (length (rows (users d0)))"
    unfolding demo_env_def by (rule conjunct2)
  from this [rule_format, of ?bob demo_db] first same
  have "status (res (app demo_env POST_register ?rob
          (store (app demo_env POST_register ?bob demo_db)))) = 400
        \<and> length (rows (users (store (app demo_env POST_register ?rob
            (store (app demo_env POST_register ?bob demo_db)))))) =
            Suc (length (rows (users demo_db)))"
    by blast
  then have two: "status (res (app demo_env POST_register ?rob
          (store (app demo_env POST_register ?bob demo_db)))) = 400
        \<and> length (rows (users (store (app demo_env POST_register ?rob
            (store (app demo_env POST_register ?bob demo_db)))))) = 2"
    by (simp add: demo_db_def)
  from one first two show ?thesis
    by blast
qed

section \<open>Rows of the table store\<close>

lemma map_of_assign:
  "map_of (assign vs r) = map_of r ++ map_of (rev vs)"
  unfolding assign_def
proof (induction vs arbitrary: r)
  case Nil
  show ?case by simp
next
  case (Cons kv vs)
  obtain k v where kv: "kv = (k, v)"
    by (cases kv)
  have "map_of (fold (\<lambda>(k, v). AList.update k v) vs (AList.update k v r)) =
      map_of (AList.update k v r) ++ map_of (rev vs)"
    by (rule Cons.IH)
  also have "\<dots> = map_of r ++ (map_of [(k, v)] ++ map_of (rev vs))"
    by (simp add: update_conv')
  finally show ?case
    by (simp add: kv)
qed

lemma field_assign:
  "field (assign vs r) k = (case map_of (rev vs) k of Some v \<Rightarrow> v | None \<Rightarrow> field r k)"
  by (simp add: field_def map_of_assign map_add_def split: option.splits)

lemma field_assign_destructured:
  assumes "distinct ks"
  shows "field (assign (map (\<lambda>k. (k, f k)) ks) r) k = (if k \<in> set ks then f k else field r k)"
proof -
  have "map_of (rev (map (\<lambda>k. (k, f k)) ks)) = (Some \<circ> f) |` set ks"
    by (simp add: rev_map map_of_map_restrict)
  then show ?thesis
    by (simp add: field_assign restrict_map_def)
qed

lemma has_key_assign:
  assumes "''id'' \<notin> fst ` set vs"
  shows "has_key k (assign vs r) = has_key k r"
proof -
  from assms have "map_of (rev vs) ''id'' = None"
    by (simp add: map_of_eq_None_iff)
  then have "field (assign vs r) ''id'' = field r ''id''"
    by (simp add: field_assign)
  then show ?thesis
    by (simp add: has_key_def split: option.splits)
qed

lemma find_after_update:
  assumes "''id'' \<notin> fst ` set vs"
  shows "find (has_key k) (map (\<lambda>r. if has_key k r then assign vs r else r) rs) =
         map_option (assign vs) (find (has_key k) rs)"
  by (induction rs) (simp_all add: has_key_assign [OF assms])

lemma no_match_count: "(filter P rs = []) = (find P rs = None)"
  by (induction rs) simp_all

lemma no_match_update:
  "find P rs = None \<Longrightarrow> map (\<lambda>r. if P r then g r else r) rs = rs"
  by (induction rs) (simp_all split: if_splits)

lemma no_match_destroy:
  "find P rs = None \<Longrightarrow> filter (\<lambda>r. \<not> P r) rs = rs"
  by (induction rs) (simp_all split: if_splits)

lemma find_after_destroy: "find P (filter (\<lambda>r. \<not> P r) rs) = None"
  by (induction rs) simp_all

section \<open>Updating\<close>

lemma put_project_missing:
  assumes "\<not> nullish (body req)"
    and "find (has_key (params_id req)) (rows (projects d)) = None"
  shows "put_project (memory h c sd) req d =
           json_reply 404 (JObj [(''error'', JStr ''Project not found'')]) req d"
  using assms
  by (simp add: put_project_def memory_def table_model_def destructure_def Let_def
      no_match_count no_match_update)

lemma put_project_found:
  assumes "\<not> nullish (body req)"
    and "find (has_key (params_id req)) (rows (projects d)) = Some p"
    and "vs = [(''name'', get (body req) ''name''),
      (''description'', get (body req) ''description''),
      (''status'', get (body req) ''status''),
      (''dueDate'', get (body req) ''dueDate'')]"
  shows "put_project (memory h c sd) req d =
           json_reply 200 (JObj (assign vs p)) req
             (d\<lparr>projects := (projects d)\<lparr>rows :=
                map (\<lambda>r. if has_key (params_id req) r then assign vs r else r)
                  (rows (projects d))\<rparr>\<rparr>)"
proof -
  have keys: "''id'' \<notin> fst ` set vs"
    by (simp add: assms(3))
  have refetch: "find (has_key (params_id req))
      (map (\<lambda>r. if has_key (params_id req) r then assign vs r else r) (rows (projects d))) =
      Some (assign vs p)"
    by (simp only: find_after_update [OF keys] assms(2) option.map)
  have count: "filter (has_key (params_id req)) (rows (projects d)) \<noteq> []"
    using assms(2) by (simp only: no_match_count) simp
  have dest: "destructure (body req) [''name'', ''description'', ''status'', ''dueDate''] = Inr vs"
    using assms(1) by (simp add: destructure_def assms(3))
  show ?thesis
    unfolding put_project_def dest
    using count refetch
    by (simp add: memory_def table_model_def Let_def)
qed

lemma put_task_missing:
  assumes "\<not> nullish (body req)"
    and "find (has_key (params_id req)) (rows (tasks d)) = None"
  shows "put_task (memory h c sd) req d =
           json_reply 404 (JObj [(''error'', JStr ''Task not found'')]) req d"
  using assms
  by (simp add: put_task_def memory_def table_model_def destructure_def Let_def
      no_match_count no_match_update)

lemma put_task_found:
  assumes "\<not> nullish (body req)"
    and "find (has_key (params_id req)) (rows (tasks d)) = Some p"
    and "vs = [(''title'', get (body req) ''title''),
      (''description'', get (body req) ''description''),
      (''completed'', get (body req) ''completed''),
      (''priority'', get (body req) ''priority''),
      (''dueDate'', get (body req) ''dueDate''),
      (''projectId'', get (body req) ''projectId'')]"
  shows "put_task (memory h c sd) req d =
           json_reply 200 (JObj (assign vs p)) req
             (d\<lparr>tasks := (tasks d)\<lparr>rows :=
                map (\<lambda>r. if has_key (params_id req) r then assign vs r else r)
                  (rows (tasks d))\<rparr>\<rparr>)"
proof -
  have keys: "''id'' \<notin> fst ` set vs"
    by (simp add: assms(3))
  have refetch: "find (has_key (params_id req))
      (map (\<lambda>r. if has_key (params_id req) r then assign vs r else r) (rows (tasks d))) =
      Some (assign vs p)"
    by (simp only: find_after_update [OF keys] assms(2) option.map)
  have count: "filter (has_key (params_id req)) (rows (tasks d)) \<noteq> []"
    using assms(2) by (simp only: no_match_count) simp
  have dest: "destructure (body req) [''title'', ''description'', ''completed'', ''priority'', ''dueDate'', ''projectId''] = Inr vs"
    using assms(1) by (simp add: destructure_def assms(3))
  show ?thesis
    unfolding put_task_def dest
    using count refetch
    by (simp add: memory_def table_model_def Let_def)
qed

lemma put_project_replaces:
  assumes "\<not> nullish (body req)"
    and "find (has_key (params_id req)) (rows (projects d)) = Some p"
  shows "\<exists>p'. res (app (memory h c sd) PUT_projects_id req d) = Response 200 (JObj p')
               \<and> find (has_key (params_id req))
                     (rows (projects (store (app (memory h c sd) PUT_projects_id req d)))) = Some p'
               \<and> (\<forall>k. field p' k =
                     (if k \<in> {''name'', ''description'', ''status'', ''dueDate''}
                      then get (body req) k else field p k))
               \<and> length (rows (projects (store (app (memory h c sd) PUT_projects_id req d)))) =
                   length (rows (projects d))"
proof -
  define vs where "vs = [(''name'', get (body req) ''name''),
      (''description'', get (body req) ''description''),
      (''status'', get (body req) ''status''),
      (''dueDate'', get (body req) ''dueDate'')]"
  have mapped: "vs = map (\<lambda>k. (k, get (body req) k)) [''name'', ''description'', ''status'', ''dueDate'']"
    by (simp add: vs_def)
  have keys: "''id'' \<notin> fst ` set vs"
    by (simp add: vs_def)
  have run: "put_project (memory h c sd) req d =
           json_reply 200 (JObj (assign vs p)) req
             (d\<lparr>projects := (projects d)\<lparr>rows :=
                map (\<lambda>r. if has_key (params_id req) r then assign vs r else r)
                  (rows (projects d))\<rparr>\<rparr>)"
    by (rule put_project_found [OF assms vs_def])
  have "res (app (memory h c sd) PUT_projects_id req d) = Response 200 (JObj (assign vs p))"
    by (simp add: run json_reply_def)
  moreover have "find (has_key (params_id req))
      (rows (projects (store (app (memory h c sd) PUT_projects_id req d)))) = Some (assign vs p)"
    by (simp add: run json_reply_def find_after_update [OF keys] assms(2))
  moreover have "\<forall>k. field (assign vs p) k =
      (if k \<in> {''name'', ''description'', ''status'', ''dueDate''} then get (body req) k else field p k)"
    unfolding mapped by (subst field_assign_destructured) simp_all
  moreover have "length (rows (projects (store (app (memory h c sd) PUT_projects_id req d)))) =
      length (rows (projects d))"
    by (simp add: run json_reply_def)
  ultimately show ?thesis
    by (intro exI [of _ "assign vs p"] conjI)
qed

lemma put_task_replaces:
  assumes "\<not> nullish (body req)"
    and "find (has_key (params_id req)) (rows (tasks d)) = Some p"
  shows "\<exists>p'. res (app (memory h c sd) PUT_tasks_id req d) = Response 200 (JObj p')
               \<and> find (has_key (params_id req))
                     (rows (tasks (store (app (memory h c sd) PUT_tasks_id req d)))) = Some p'
               \<and> (\<forall>k. field p' k =
                     (if k \<in> {''title'', ''description'', ''completed'', ''priority'', ''dueDate'', ''projectId''}
                      then get (body req) k else field p k))
               \<and> length (rows (tasks (store (app (memory h c sd) PUT_tasks_id req d)))) =
                   length (rows (tasks d))"
proof -
  define vs where "vs = [(''title'', get (body req) ''title''),
      (''description'', get (body req) ''description''),
      (''completed'', get (body req) ''completed''),
      (''priority'', get (body req) ''priority''),
      (''dueDate'', get (body req) ''dueDate''),
      (''projectId'', get (body req) ''projectId'')]"
  have mapped: "vs = map (\<lambda>k. (k, get (body req) k)) [''title'', ''description'', ''completed'', ''priority'', ''dueDate'', ''projectId'']"
    by (simp add: vs_def)
  have keys: "''id'' \<notin> fst ` set vs"
    by (simp add: vs_def)
  have run: "put_task (memory h c sd) req d =
           json_reply 200 (JObj (assign vs p)) req
             (d\<lparr>tasks := (tasks d)\<lparr>rows :=
                map (\<lambda>r. if has_key (params_id req) r then assign vs r else r)
                  (rows (tasks d))\<rparr>\<rparr>)"
    by (rule put_task_found [OF assms vs_def])
  have "res (app (memory h c sd) PUT_tasks_id req d) = Response 200 (JObj (assign vs p))"
    by (simp add: run json_reply_def)
  moreover have "find (has_key (params_id req))
      (rows (tasks (store (app (memory h c sd) PUT_tasks_id req d)))) = Some (assign vs p)"
    by (simp add: run json_reply_def find_after_update [OF keys] assms(2))
  moreover have "\<forall>k. field (assign vs p) k =
      (if k \<in> {''title'', ''description'', ''completed'', ''priority'', ''dueDate'', ''projectId''} then get (body req) k else field p k)"
    unfolding mapped by (subst field_assign_destructured) simp_all
  moreover have "length (rows (tasks (store (app (memory h c sd) PUT_tasks_id req d)))) =
      length (rows (tasks d))"
    by (simp add: run json_reply_def)
  ultimately show ?thesis
    by (intro exI [of _ "assign vs p"] conjI)
qed

text \<open>
  C7. On the table store, for \<^verbatim>\<open>PUT /api/projects/:id\<close> and \<^verbatim>\<open>PUT /api/tasks/:id\<close> with a
  body that can be destructured: when no row has the key, the answer is 404 and the store
  is left as it was (no row is created); when a row has the key, the answer is 200 with
  the row as it is found under the key after the update, in which every updatable field
  holds the body's value (\<^verbatim>\<open>undefined\<close> when the body has no such field) and every other
  field is as before; the number of rows does not change.
\<close>

theorem put_replaces_every_updatable_field:
  assumes "\<not> nullish (body req)"
  shows "(find (has_key (params_id req)) (rows (projects d)) = None \<longrightarrow>
            app (memory h c sd) PUT_projects_id req d =
              \<lparr>res = Response 404 (JObj [(''error'', JStr ''Project not found'')]),
               store = d, session_after = session req, console = []\<rparr>)
       \<and> (\<forall>p. find (has_key (params_id req)) (rows (projects d)) = Some p \<longrightarrow>
            (\<exists>p'. res (app (memory h c sd) PUT_projects_id req d) = Response 200 (JObj p')
               \<and> find (has_key (params_id req))
                     (rows (projects (store (app (memory h c sd) PUT_projects_id req d)))) = Some p'
               \<and> (\<forall>k. field p' k =
                     (if k \<in> {''name'', ''description'', ''status'', ''dueDate''}
                      then get (body req) k else field p k))
               \<and> length (rows (projects (store (app (memory h c sd) PUT_projects_id req d)))) =
                   length (rows (projects d))))
       \<and> (find (has_key (params_id req)) (rows (tasks d)) = None \<longrightarrow>
            app (memory h c sd) PUT_tasks_id req d =
              \<lparr>res = Response 404 (JObj [(''error'', JStr ''Task not found'')]),
               store = d, session_after = session req, console = []\<rparr>)
       \<and> (\<forall>p. find (has_key (params_id req)) (rows (tasks d)) = Some p \<longrightarrow>
            (\<exists>p'. res (app (memory h c sd) PUT_tasks_id req d) = Response 200 (JObj p')
               \<and> find (has_key (params_id req))
                     (rows (tasks (store (app (memory h c sd) PUT_tasks_id req d)))) = Some p'
               \<and> (\<forall>k. field p' k =
                     (if k \<in> {''title'', ''description'', ''completed'', ''priority'', ''dueDate'', ''projectId''}
                      then get (body req) k else field p k))
               \<and> length (rows (tasks (store (app (memory h c sd) PUT_tasks_id req d)))) =
                   length (rows (tasks d))))
       \<and> (\<forall>kvs k. body req = JObj kvs \<and> map_of kvs k = None \<longrightarrow>
            get (body req) k = Undefined)"
  using put_project_missing [OF assms, of d h c sd] put_project_replaces [OF assms, of d _ h c sd]
    put_task_missing [OF assms, of d h c sd] put_task_replaces [OF assms, of d _ h c sd]
  by (simp add: json_reply_def get_JObj field_def)

theorem put_replaces_every_updatable_field_witness:
  "\<not> nullish (body (demo_request ''1'' (JObj [(''name'', JStr ''new'')]) None))
   \<and> find (has_key ''1'') (rows (projects demo_db)) =
       Some [(''id'', JNum 1), (''name'', JStr ''site''), (''description'', JStr ''d''),
             (''status'', JStr ''open''), (''dueDate'', Null), (''userId'', JNum 7)]
   \<and> app demo_env PUT_projects_id (demo_request ''1'' (JObj [(''name'', JStr ''new'')]) None) demo_db =
     \<lparr>res = Response 200 (JObj [(''id'', JNum 1), (''name'', JStr ''new''),
              (''description'', Undefined), (''status'', Undefined), (''dueDate'', Undefined),
              (''userId'', JNum 7)]),
      store = demo_db\<lparr>projects := \<lparr>rows = [[(''id'', JNum 1), (''name'', JStr ''new''),
              (''description'', Undefined), (''status'', Undefined), (''dueDate'', Undefined),
              (''userId'', JNum 7)]], next_id = 2\<rparr>\<rparr>,
      session_after = None, console = []\<rparr>
   \<and> \<not> nullish (body (demo_request ''5'' (JObj [(''title'', JStr ''new'')]) None))
   \<and> find (has_key ''5'') (rows (tasks demo_db)) = None
   \<and> app demo_env PUT_tasks_id (demo_request ''5'' (JObj [(''title'', JStr ''new'')]) None) demo_db =
     \<lparr>res = Response 404 (JObj [(''error'', JStr ''Task not found'')]),
      store = demo_db, session_after = None, console = []\<rparr>"
  using put_replaces_every_updatable_field
    [of "demo_request ''1'' (JObj [(''name'', JStr ''new'')]) None" demo_db demo_hash demo_compare "\<lambda>s. None"]
   put_replaces_every_updatable_field
    [of "demo_request ''5'' (JObj [(''title'', JStr ''new'')]) None" demo_db demo_hash demo_compare "\<lambda>s. None"]
  by (simp add: demo_defs value_defs put_project_def put_task_def Let_def)

section \<open>Deleting\<close>

lemma delete_project_missing:
  assumes "find (has_key (params_id req)) (rows (projects d)) = None"
  shows "delete_project (memory h c sd) req d =
           json_reply 404 (JObj [(''error'', JStr ''Project not found'')]) req d"
  using assms
  by (simp add: delete_project_def memory_def table_model_def Let_def no_match_count no_match_destroy)

lemma delete_project_found:
  assumes "find (has_key (params_id req)) (rows (projects d)) = Some p"
  shows "delete_project (memory h c sd) req d =
           json_reply 200 (JObj [(''message'', JStr ''Project deleted successfully'')]) req
             (d\<lparr>projects := (projects d)\<lparr>rows :=
                filter (\<lambda>r. \<not> has_key (params_id req) r) (rows (projects d))\<rparr>\<rparr>)"
proof -
  have "filter (has_key (params_id req)) (rows (projects d)) \<noteq> []"
    using assms by (simp only: no_match_count) simp
  then show ?thesis
    by (simp add: delete_project_def memory_def table_model_def Let_def)
qed

lemma delete_project_absent:
  assumes "find (has_key (params_id req)) (rows (projects d)) = None"
  shows "app (memory h c sd) DELETE_projects_id req d =
           \<lparr>res = Response 404 (JObj [(''error'', JStr ''Project not found'')]),
            store = d, session_after = session req, console = []\<rparr>"
  by (simp add: delete_project_missing [OF assms] json_reply_def)

lemma delete_project_removes:
  assumes "find (has_key (params_id req)) (rows (projects d)) = Some p"
  shows "res (app (memory h c sd) DELETE_projects_id req d) =
           Response 200 (JObj [(''message'', JStr ''Project deleted successfully'')])
       \<and> rows (projects (store (app (memory h c sd) DELETE_projects_id req d))) =
           filter (\<lambda>r. \<not> has_key (params_id req) r) (rows (projects d))
       \<and> find (has_key (params_id req))
             (rows (projects (store (app (memory h c sd) DELETE_projects_id req d)))) = None
       \<and> length (rows (projects (store (app (memory h c sd) DELETE_projects_id req d)))) <
           length (rows (projects d))
       \<and> (\<forall>req2. params_id req2 = params_id req \<longrightarrow>
             app (memory h c sd) DELETE_projects_id req2 (store (app (memory h c sd) DELETE_projects_id req d)) =
               \<lparr>res = Response 404 (JObj [(''error'', JStr ''Project not found'')]),
                store = store (app (memory h c sd) DELETE_projects_id req d),
                session_after = session req2, console = []\<rparr>)"
proof -
  let ?d1 = "d\<lparr>projects := (projects d)\<lparr>rows :=
                filter (\<lambda>r. \<not> has_key (params_id req) r) (rows (projects d))\<rparr>\<rparr>"
  have run: "delete_project (memory h c sd) req d =
      json_reply 200 (JObj [(''message'', JStr ''Project deleted successfully'')]) req ?d1"
    by (rule delete_project_found [OF assms])
  have gone: "find (has_key (params_id req)) (rows (projects ?d1)) = None"
    by (simp add: find_after_destroy)
  have fewer: "length (filter (\<lambda>r. \<not> has_key (params_id req) r) (rows (projects d))) <
      length (rows (projects d))"
  proof (rule length_filter_less)
    from assms show "p \<in> set (rows (projects d))"
      by (auto simp: find_Some_iff)
    from assms show "\<not> \<not> has_key (params_id req) p"
      by (auto simp: find_Some_iff)
  qed
  have again: "\<forall>req2. params_id req2 = params_id req \<longrightarrow>
      delete_project (memory h c sd) req2 ?d1 =
        json_reply 404 (JObj [(''error'', JStr ''Project not found'')]) req2 ?d1"
  proof (intro allI impI)
    fix req2 :: request
    assume same: "params_id req2 = params_id req"
    from gone have "find (has_key (params_id req2)) (rows (projects ?d1)) = None"
      by (simp only: same)
    then show "delete_project (memory h c sd) req2 ?d1 =
        json_reply 404 (JObj [(''error'', JStr ''Project not found'')]) req2 ?d1"
      by (rule delete_project_missing)
  qed
  show ?thesis
    using gone fewer again by (simp add: run json_reply_def)
qed

lemma delete_task_missing:
  assumes "find (has_key (params_id req)) (rows (tasks d)) = None"
  shows "delete_task (memory h c sd) req d =
           json_reply 404 (JObj [(''error'', JStr ''Task not found'')]) req d"
  using assms
  by (simp add: delete_task_def memory_def table_model_def Let_def no_match_count no_match_destroy)

lemma delete_task_found:
  assumes "find (has_key (params_id req)) (rows (tasks d)) = Some p"
  shows "delete_task (memory h c sd) req d =
           json_reply 200 (JObj [(''message'', JStr ''Task deleted successfully'')]) req
             (d\<lparr>tasks := (tasks d)\<lparr>rows :=
                filter (\<lambda>r. \<not> has_key (params_id req) r) (rows (tasks d))\<rparr>\<rparr>)"
proof -
  have "filter (has_key (params_id req)) (rows (tasks d)) \<noteq> []"
    using assms by (simp only: no_match_count) simp
  then show ?thesis
    by (simp add: delete_task_def memory_def table_model_def Let_def)
qed

lemma delete_task_absent:
  assumes "find (has_key (params_id req)) (rows (tasks d)) = None"
  shows "app (memory h c sd) DELETE_tasks_id req d =
           \<lparr>res = Response 404 (JObj [(''error'', JStr ''Task not found'')]),
            store = d, session_after = session req, console = []\<rparr>"
  by (simp add: delete_task_missing [OF assms] json_reply_def)

lemma delete_task_removes:
  assumes "find (has_key (params_id req)) (rows (tasks d)) = Some p"
  shows "res (app (memory h c sd) DELETE_tasks_id req d) =
           Response 200 (JObj [(''message'', JStr ''Task deleted successfully'')])
       \<and> rows (tasks (store (app (memory h c sd) DELETE_tasks_id req d))) =
           filter (\<lambda>r. \<not> has_key (params_id req) r) (rows (tasks d))
       \<and> find (has_key (params_id req))
             (rows (tasks (store (app (memory h c sd) DELETE_tasks_id req d)))) = None
       \<and> length (rows (tasks (store (app (memory h c sd) DELETE_tasks_id req d)))) <
           length (rows (tasks d))
       \<and> (\<forall>req2. params_id req2 = params_id req \<longrightarrow>
             app (memory h c sd) DELETE_tasks_id req2 (store (app (memory h c sd) DELETE_tasks_id req d)) =
               \<lparr>res = Response 404 (JObj [(''error'', JStr ''Task not found'')]),
                store = store (app (memory h c sd) DELETE_tasks_id req d),
                session_after = session req2, console = []\<rparr>)"
proof -
  let ?d1 = "d\<lparr>tasks := (tasks d)\<lparr>rows :=
                filter (\<lambda>r. \<not> has_key (params_id req) r) (rows (tasks d))\<rparr>\<rparr>"
  have run: "delete_task (memory h c sd) req d =
      json_reply 200 (JObj [(''message'', JStr ''Task deleted successfully'')]) req ?d1"
    by (rule delete_task_found [OF assms])
  have gone: "find (has_key (params_id req)) (rows (tasks ?d1)) = None"
    by (simp add: find_after_destroy)
  have fewer: "length (filter (\<lambda>r. \<not> has_key (params_id req) r) (rows (tasks d))) <
      length (rows (tasks d))"
  proof (rule length_filter_less)
    from assms show "p \<in> set (rows (tasks d))"
      by (auto simp: find_Some_iff)
    from assms show "\<not> \<not> has_key (params_id req) p"
      by (auto simp: find_Some_iff)
  qed
  have again: "\<forall>req2. params_id req2 = params_id req \<longrightarrow>
      delete_task (memory h c sd) req2 ?d1 =
        json_reply 404 (JObj [(''error'', JStr ''Task not found'')]) req2 ?d1"
  proof (intro allI impI)
    fix req2 :: request
    assume same: "params_id req2 = params_id req"
    from gone have "find (has_key (params_id req2)) (rows (tasks ?d1)) = None"
      by (simp only: same)
    then show "delete_task (memory h c sd) req2 ?d1 =
        json_reply 404 (JObj [(''error'', JStr ''Task not found'')]) req2 ?d1"
      by (rule delete_task_missing)
  qed
  show ?thesis
    using gone fewer again by (simp add: run json_reply_def)
qed

text \<open>
  C8. On the table store, for \<^verbatim>\<open>DELETE /api/projects/:id\<close> and \<^verbatim>\<open>DELETE /api/tasks/:id\<close>:
  when no row has the key, the answer is 404 and the store is left as it was; when a row
  has the key, the answer is 200 with the deleted-successfully message, the rows with the
  key are removed and the others kept, and a second delete of the same key on the
  resulting store is answered 404 and changes nothing.
\<close>

theorem delete_removes_or_404:
  "(find (has_key (params_id req)) (rows (projects d)) = None \<longrightarrow>
      app (memory h c sd) DELETE_projects_id req d =
        \<lparr>res = Response 404 (JObj [(''error'', JStr ''Project not found'')]),
         store = d, session_after = session req, console = []\<rparr>)
   \<and> (\<forall>p. find (has_key (params_id req)) (rows (projects d)) = Some p \<longrightarrow>
        res (app (memory h c sd) DELETE_projects_id req d) =
           Response 200 (JObj [(''message'', JStr ''Project deleted successfully'')])
       \<and> rows (projects (store (app (memory h c sd) DELETE_projects_id req d))) =
           filter (\<lambda>r. \<not> has_key (params_id req) r) (rows (projects d))
       \<and> find (has_key (params_id req))
             (rows (projects (store (app (memory h c sd) DELETE_projects_id req d)))) = None
       \<and> length (rows (projects (store (app (memory h c sd) DELETE_projects_id req d)))) <
           length (rows (projects d))
       \<and> (\<forall>req2. params_id req2 = params_id req \<longrightarrow>
             app (memory h c sd) DELETE_projects_id req2 (store (app (memory h c sd) DELETE_projects_id req d)) =
               \<lparr>res = Response 404 (JObj [(''error'', JStr ''Project not found'')]),
                store = store (app (memory h c sd) DELETE_projects_id req d),
                session_after = session req2, console = []\<rparr>))
   \<and> (find (has_key (params_id req)) (rows (tasks d)) = None \<longrightarrow>
      app (memory h c sd) DELETE_tasks_id req d =
        \<lparr>res = Response 404 (JObj [(''error'', JStr ''Task not found'')]),
         store = d, session_after = session req, console = []\<rparr>)
   \<and> (\<forall>p. find (has_key (params_id req)) (rows (tasks d)) = Some p \<longrightarrow>
        res (app (memory h c sd) DELETE_tasks_id req d) =
           Response 200 (JObj [(''message'', JStr ''Task deleted successfully'')])
       \<and> rows (tasks (store (app (memory h c sd) DELETE_tasks_id req d))) =
           filter (\<lambda>r. \<not> has_key (params_id req) r) (rows (tasks d))
       \<and> find (has_key (params_id req))
             (rows (tasks (store (app (memory h c sd) DELETE_tasks_id req d)))) = None
       \<and> length (rows (tasks (store (app (memory h c sd) DELETE_tasks_id req d)))) <
           length (rows (tasks d))
       \<and> (\<forall>req2. params_id req2 = params_id req \<longrightarrow>
             app (memory h c sd) DELETE_tasks_id req2 (store (app (memory h c sd) DELETE_tasks_id req d)) =
               \<lparr>res = Response 404 (JObj [(''error'', JStr ''Task not found'')]),
                store = store (app (memory h c sd) DELETE_tasks_id req d),
                session_after = session req2, console = []\<rparr>))"
  using delete_project_absent [of req d h c sd] delete_project_removes [of req d _ h c sd]
    delete_task_absent [of req d h c sd] delete_task_removes [of req d _ h c sd]
  by blast

theorem delete_removes_or_404_witness:
  "find (has_key ''1'') (rows (tasks demo_db)) =
       Some [(''id'', JNum 1), (''title'', JStr ''write''), (''description'', Null),
             (''completed'', JBool False), (''priority'', JStr ''high''),
             (''dueDate'', Null), (''projectId'', JNum 1)]
   \<and> app demo_env DELETE_tasks_id (demo_request ''1'' Undefined None) demo_db =
     \<lparr>res = Response 200 (JObj [(''message'', JStr ''Task deleted successfully'')]),
      store = demo_db\<lparr>tasks := \<lparr>rows = [], next_id = 2\<rparr>\<rparr>,
      session_after = None, console = []\<rparr>
   \<and> app demo_env DELETE_tasks_id (demo_request ''1'' Undefined None)
       (store (app demo_env DELETE_tasks_id (demo_request ''1'' Undefined None) demo_db)) =
     \<lparr>res = Response 404 (JObj [(''error'', JStr ''Task not found'')]),
      store = demo_db\<lparr>tasks := \<lparr>rows = [], next_id = 2\<rparr>\<rparr>,
      session_after = None, console = []\<rparr>
   \<and> find (has_key ''9'') (rows (projects demo_db)) = None
   \<and> app demo_env DELETE_projects_id (demo_request ''9'' Undefined None) demo_db =
     \<lparr>res = Response 404 (JObj [(''error'', JStr ''Project not found'')]),
      store = demo_db, session_after = None, console = []\<rparr>"
  using delete_removes_or_404
    [of "demo_request ''1'' Undefined None" demo_db demo_hash demo_compare "\<lambda>s. None"]
   delete_removes_or_404
    [of "demo_request ''9'' Undefined None" demo_db demo_hash demo_compare "\<lambda>s. None"]
  by (simp add: demo_defs value_defs delete_project_def delete_task_def Let_def)

section \<open>Exceptions of the persistence calls\<close>




end
